theory Spec2Isabelle
  imports Complex_Main "HOL-Library.AList" "HOL-Library.Sublist"
begin

section \<open>Python values, strings and exceptions\<close>

text \<open>
  The connector of \<^verbatim>\<open>openapiconnector.py\<close> works on JSON documents (the API schema and the
  API configuration). They are modelled by \<open>pyval\<close>; a Python \<^verbatim>\<open>dict\<close> keeps its insertion
  order, so it is an association list with distinct keys.
\<close>

datatype pyval =
    PNone
  | PBool bool
  | PInt int
  | PStr string
  | PList "pyval list"
  | PDict "(string \<times> pyval) list"

text \<open>Decimal rendering of integers, as an f-string renders an \<^verbatim>\<open>int\<close>.\<close>

definition digit_char :: "nat \<Rightarrow> char" where
  "digit_char d = ''0123456789'' ! d"

fun str_nat :: "nat \<Rightarrow> string" where
  "str_nat n = (if n < 10 then [digit_char n] else str_nat (n div 10) @ [digit_char (n mod 10)])"

declare str_nat.simps [simp del]

definition str_int :: "int \<Rightarrow> string" where
  "str_int i = (if i < 0 then CHR ''-'' # str_nat (nat (- i)) else str_nat (nat i))"

text \<open>Python's \<^verbatim>\<open>int(x)\<close> on a number: truncation towards zero.\<close>

definition py_int :: "rat \<Rightarrow> int" where
  "py_int q = (if q < 0 then \<lceil>q\<rceil> else \<lfloor>q\<rfloor>)"

text \<open>\<^verbatim>\<open>str.lower()\<close> on ASCII text.\<close>

definition lower_char :: "char \<Rightarrow> char" where
  "lower_char ch =
     (case map_of (zip ''ABCDEFGHIJKLMNOPQRSTUVWXYZ'' ''abcdefghijklmnopqrstuvwxyz'') ch of
        Some l \<Rightarrow> l
      | None \<Rightarrow> ch)"

definition py_lower :: "string \<Rightarrow> string" where
  "py_lower s = map lower_char s"

text \<open>The type name CPython prints in its \<^verbatim>\<open>TypeError\<close> and \<^verbatim>\<open>AttributeError\<close> texts.\<close>

fun type_name :: "pyval \<Rightarrow> string" where
  "type_name PNone = ''NoneType''"
| "type_name (PBool b) = ''bool''"
| "type_name (PInt i) = ''int''"
| "type_name (PStr s) = ''str''"
| "type_name (PList xs) = ''list''"
| "type_name (PDict d) = ''dict''"

definition no_attribute :: "pyval \<Rightarrow> string \<Rightarrow> string" where
  "no_attribute v a = [CHR 0x27] @ type_name v @ [CHR 0x27] @ '' object has no attribute ''
     @ [CHR 0x27] @ a @ [CHR 0x27]"

definition no_len :: "string \<Rightarrow> string" where
  "no_len t = ''object of type '' @ [CHR 0x27] @ t @ [CHR 0x27] @ '' has no len()''"

text \<open>\<^verbatim>\<open>len(v)\<close>: defined on strings, lists and dicts, a \<^verbatim>\<open>TypeError\<close> otherwise.\<close>

fun py_len :: "pyval \<Rightarrow> string + nat" where
  "py_len (PStr s) = Inr (length s)"
| "py_len (PList xs) = Inr (length xs)"
| "py_len (PDict d) = Inr (length d)"
| "py_len v = Inl (no_len (type_name v))"

text \<open>
  \<^verbatim>\<open>str(v)\<close>: a string is returned as it is; every other value is rendered by its \<^verbatim>\<open>repr\<close>,
  which is a built-in of the interpreter and a parameter here.
\<close>

fun py_str :: "(pyval \<Rightarrow> string) \<Rightarrow> pyval \<Rightarrow> string" where
  "py_str repr (PStr s) = s"
| "py_str repr v = repr v"

text \<open>
  \<^verbatim>\<open>http.HTTPStatus(code).name\<close> and \<^verbatim>\<open>http.HTTPStatus(code).phrase\<close> of the Python standard
  library, on the five status codes of \<^verbatim>\<open>_api_status_code\<close>; the constructor raises
  \<^verbatim>\<open>ValueError\<close> on a number that is no status code, and the codes outside the retry list
  are never looked up.
\<close>

definition HTTPStatus_name :: "int \<Rightarrow> string option" where
  "HTTPStatus_name code =
     (if code = 429 then Some ''TOO_MANY_REQUESTS''
      else if code = 500 then Some ''INTERNAL_SERVER_ERROR''
      else if code = 502 then Some ''BAD_GATEWAY''
      else if code = 503 then Some ''SERVICE_UNAVAILABLE''
      else if code = 504 then Some ''GATEWAY_TIMEOUT''
      else None)"

definition HTTPStatus_phrase :: "int \<Rightarrow> string option" where
  "HTTPStatus_phrase code =
     (if code = 429 then Some ''Too Many Requests''
      else if code = 500 then Some ''Internal Server Error''
      else if code = 502 then Some ''Bad Gateway''
      else if code = 503 then Some ''Service Unavailable''
      else if code = 504 then Some ''Gateway Timeout''
      else None)"

text \<open>
  The exceptions that leave the functions modelled here. \<^verbatim>\<open>NotImplementedError\<close> carries
  the request-body content map it was raised with (content type and schema);
  \<^verbatim>\<open>RequestError\<close> and \<^verbatim>\<open>SpecError\<close> are the exceptions of \<^verbatim>\<open>aiopenapi3\<close>.
\<close>

datatype exn =
    RuntimeError string
  | NotImplementedError "(string \<times> pyval) list"
  | TypeError string
  | AttributeError string
  | ValueError string
  | OverflowError string
  | SpecError
  | RequestError
  | OtherError string

datatype 'a result = Returned 'a | Raised exn


section \<open>The class-level error slot and its lock\<close>

text \<open>
  \<^verbatim>\<open>Plugin._lock\<close> and \<^verbatim>\<open>Plugin._response_error_message\<close> are attributes of the class, not of
  an instance. The model keeps them in one record that every function below threads
  through, together with the transport settings of the class (\<^verbatim>\<open>_api_verify\<close>,
  \<^verbatim>\<open>_api_rate_limit_timeout\<close>, \<^verbatim>\<open>_api_retries\<close>) and the log of the effects that matter for
  the lock: taking and releasing the lock, reading and writing the slot, network
  dispatches, sleeps and prints.
\<close>

datatype event =
    Acquire
  | Release
  | ReadSlot
  | WriteSlot
  | NetIO
  | Sleep rat
  | Print string

record plugin_class =
  cls_api_verify :: bool
  cls_api_rate_limit_timeout :: rat
  cls_api_retries :: int
  response_error_message :: string
  events :: "event list"

definition Plugin_class :: plugin_class where
  "Plugin_class =
     \<lparr>cls_api_verify = False,
      cls_api_rate_limit_timeout = 5,
      cls_api_retries = 3,
      response_error_message = [],
      events = []\<rparr>"

definition log_event :: "event \<Rightarrow> plugin_class \<Rightarrow> plugin_class" where
  "log_event e c = c\<lparr>events := events c @ [e]\<rparr>"

definition get_response_error :: "plugin_class \<Rightarrow> string \<times> plugin_class" where
  "get_response_error c =
     (let c1 = log_event Acquire c;
          c2 = log_event ReadSlot c1;
          r = response_error_message c2
      in (r, log_event Release c2))"

definition notify_response_error :: "string \<Rightarrow> plugin_class \<Rightarrow> plugin_class" where
  "notify_response_error error_message c =
     (let c1 = log_event Acquire c;
          c2 = log_event WriteSlot (c1\<lparr>response_error_message := error_message\<rparr>)
      in log_event Release c2)"


section \<open>OpenAPICustomTransport\<close>

record response =
  status_code :: int
  resp_text :: string

text \<open>
  What \<^verbatim>\<open>super().handle_async_request(request)\<close> does on one dispatch: a response, one of
  the caught network failures (\<^verbatim>\<open>ConnectTimeout\<close>, \<^verbatim>\<open>ReadTimeout\<close>, \<^verbatim>\<open>NetworkError\<close>) with its
  text, or an exception the \<^verbatim>\<open>except\<close> clause does not catch.
\<close>

datatype wire_result =
    Resp response
  | NetFail string
  | Uncaught exn

record transport =
  ssl_verify :: bool
  api_retries :: int
  api_rate_limit_timeout :: rat
  api_status_code :: "int list"
  response_error_callback :: "string \<Rightarrow> plugin_class \<Rightarrow> plugin_class"

definition OpenAPICustomTransport ::
  "bool \<Rightarrow> int \<Rightarrow> rat \<Rightarrow> (string \<Rightarrow> plugin_class \<Rightarrow> plugin_class) \<Rightarrow> transport" where
  "OpenAPICustomTransport verify retries rate_limit_timeout callback =
     \<lparr>ssl_verify = verify,
      api_retries = retries,
      api_rate_limit_timeout = rate_limit_timeout,
      api_status_code = [429, 500, 502, 503, 504],
      response_error_callback = callback\<rparr>"

text \<open>
  \<^verbatim>\<open>_api_backoff_factor\<close> is an attribute of the class that nothing assigns: the float
  \<^verbatim>\<open>2.0\<close>.
\<close>

definition api_backoff_factor :: rat where
  "api_backoff_factor = 2"

text \<open>
  \<^verbatim>\<open>int(self._api_backoff_factor * (2 ** (attempt - 1)))\<close>. The power is an exact \<^verbatim>\<open>int\<close>
  for \<open>attempt \<ge> 1\<close> and a float power of two below; its product with \<^verbatim>\<open>2.0\<close> is a power
  of two, exact in binary64 below \<open>2^1024\<close> (and zero, as its floor is, below the smallest
  float), so the rational value is the float value there. At \<open>attempt = 1024\<close> the
  product is the float infinity, which \<^verbatim>\<open>int\<close> refuses; from \<open>attempt = 1025\<close> on the
  \<^verbatim>\<open>int\<close> power is too large to become a float. Both are an \<^verbatim>\<open>OverflowError\<close>.
\<close>

definition backoff_product :: "int \<Rightarrow> exn + int" where
  "backoff_product attempt =
     (if attempt \<ge> 1025 then Inl (OverflowError ''int too large to convert to float'')
      else if attempt = 1024
      then Inl (OverflowError ''cannot convert float infinity to integer'')
      else Inr (py_int (api_backoff_factor * (2 powi (attempt - 1)))))"

definition backoff_timing :: "transport \<Rightarrow> int \<Rightarrow> int option \<Rightarrow> exn + rat" where
  "backoff_timing T attempt status =
     (if status \<noteq> None \<and> status \<noteq> Some 0 \<and> status = Some 429
      then Inr (api_rate_limit_timeout T)
      else (case backoff_product attempt of
              Inl e \<Rightarrow> Inl e
            | Inr n \<Rightarrow> Inr (of_int n)))"

text \<open>
  \<^verbatim>\<open>handle_attempt_retries\<close>: the exception it raises, if any, and the class state after
  it (with the sleep, when it sleeps).
\<close>

definition handle_attempt_retries ::
  "transport \<Rightarrow> int \<Rightarrow> int option \<Rightarrow> plugin_class \<Rightarrow> exn option \<times> plugin_class" where
  "handle_attempt_retries T attempt status c =
     (if attempt = api_retries T then (None, c)
      else (case backoff_timing T attempt status of
              Inl e \<Rightarrow> (Some e, c)
            | Inr delay \<Rightarrow> (None, log_event (Sleep delay) c)))"

definition max_retries_message :: "transport \<Rightarrow> string \<Rightarrow> string" where
  "max_retries_message T error_message =
     ''Maximum retries exceeded ('' @ str_int (api_retries T) @ '') '' @ error_message"

definition status_message :: "int \<Rightarrow> string \<Rightarrow> string" where
  "status_message code name =
     ''Response status code: '' @ str_int code @ '' ('' @ name @ '')''"

text \<open>
  The \<^verbatim>\<open>finally\<close> clause of one iteration. It runs however the \<^verbatim>\<open>try\<close> statement is left,
  and an exception it raises replaces a pending \<^verbatim>\<open>return\<close> or exception.
\<close>

definition finally_clause ::
  "transport \<Rightarrow> int \<Rightarrow> string \<Rightarrow> plugin_class \<Rightarrow> exn option \<times> plugin_class" where
  "finally_clause T attempt error_message c =
     (if attempt = api_retries T
      then (Some (RuntimeError (max_retries_message T error_message)),
            response_error_callback T (max_retries_message T error_message) c)
      else (None, c))"

text \<open>
  How one iteration ends once its \<^verbatim>\<open>finally\<close> clause has run: with the exception of the
  clause, else with the exception \<open>pending\<close> raised in the \<^verbatim>\<open>try\<close> statement, else as
  \<open>continue\<close> says (the next iteration, or the \<^verbatim>\<open>return\<close> that was pending).
\<close>

definition after_finally ::
  "transport \<Rightarrow> int \<Rightarrow> string \<Rightarrow> exn option \<Rightarrow> plugin_class
     \<Rightarrow> (plugin_class \<Rightarrow> response option result \<times> plugin_class)
     \<Rightarrow> response option result \<times> plugin_class" where
  "after_finally T attempt error_message pending c continue =
     (case finally_clause T attempt error_message c of
        (Some e, c2) \<Rightarrow> (Raised e, c2)
      | (None, c2) \<Rightarrow>
          (case pending of
             Some e0 \<Rightarrow> (Raised e0, c2)
           | None \<Rightarrow> continue c2))"

text \<open>
  The loop \<^verbatim>\<open>for attempt in range(self._api_retries + 1)\<close> over the attempts still to
  run; \<open>wire attempt\<close> is what the dispatch of that attempt meets. Falling out of the loop
  (an empty range) returns Python's \<^verbatim>\<open>None\<close>.
\<close>

fun attempts ::
  "transport \<Rightarrow> (int \<Rightarrow> wire_result) \<Rightarrow> int list \<Rightarrow> string \<Rightarrow> plugin_class
     \<Rightarrow> response option result \<times> plugin_class" where
  "attempts T wire [] error_message c = (Returned None, c)"
| "attempts T wire (attempt # rest) error_message c =
     (case wire attempt of
        NetFail msg \<Rightarrow>
          (case handle_attempt_retries T attempt None (log_event NetIO c) of
             (raised, c1) \<Rightarrow>
               after_finally T attempt msg raised c1 (attempts T wire rest msg))
      | Uncaught e0 \<Rightarrow>
          after_finally T attempt error_message (Some e0) (log_event NetIO c)
            (attempts T wire rest error_message)
      | Resp r \<Rightarrow>
          (if status_code r \<notin> set (api_status_code T)
           then after_finally T attempt error_message None (log_event NetIO c)
                  (\<lambda>c2. (Returned (Some r), c2))
           else (case HTTPStatus_name (status_code r) of
                   None \<Rightarrow>
                     after_finally T attempt error_message
                       (Some (ValueError (str_int (status_code r)
                          @ '' is not a valid HTTPStatus'')))
                       (log_event NetIO c) (attempts T wire rest error_message)
                 | Some name \<Rightarrow>
                     (case handle_attempt_retries T attempt (Some (status_code r))
                             (log_event NetIO c) of
                        (raised, c1) \<Rightarrow>
                          after_finally T attempt (status_message (status_code r) name)
                            raised c1
                            (attempts T wire rest (status_message (status_code r) name))))))"

definition handle_async_request ::
  "transport \<Rightarrow> (int \<Rightarrow> wire_result) \<Rightarrow> plugin_class
     \<Rightarrow> response option result \<times> plugin_class" where
  "handle_async_request T wire c = attempts T wire [0..api_retries T] [] c"


section \<open>The API instance and the library\<close>

text \<open>
  The object \<^verbatim>\<open>OpenAPI.loads\<close> returns belongs to the \<^verbatim>\<open>aiopenapi3\<close> library. The model
  holds the attributes the connector reads: the security schemes of the contract (name,
  \<^verbatim>\<open>type\<close>, and \<^verbatim>\<open>scheme_\<close> (here \<open>scheme\<close>) where the contract gives one), the operation tagged
  \<^verbatim>\<open>predict_api\<close> (its method, its parameters, the content map of its request body), and
  the credentials \<^verbatim>\<open>authenticate\<close> has registered. An attribute the library types as
  optional is an \<open>option\<close>: \<open>None\<close> is Python's \<^verbatim>\<open>None\<close>.
\<close>

type_synonym dict = "(string \<times> pyval) list"

record security_scheme =
  scheme_type :: string
  scheme :: "string option"

record param_schema =
  enum :: "pyval list option"

record parameter =
  param_name :: string
  in_name :: string
  required :: bool
  schema :: "param_schema option"

record operation =
  op_method :: string
  op_parameters :: "parameter list"
  requestBody :: "dict option"

datatype credential =
    Token string
  | UserPass pyval pyval

record api_instance =
  securitySchemes :: "(string \<times> security_scheme) list"
  predict_api :: "operation option"
  security :: "(string \<times> credential) list"

text \<open>\<^verbatim>\<open>api.authenticate(**{name: value})\<close> stores the value under the scheme name.\<close>

definition authenticate :: "string \<Rightarrow> credential \<Rightarrow> api_instance \<Rightarrow> api_instance" where
  "authenticate api_key cred api = api\<lparr>security := AList.update api_key cred (security api)\<rparr>"

text \<open>
  The library calls and interpreter built-ins whose code is outside the connector are
  parameters:
  \<^item> \<open>validate config schema\<close> is \<^verbatim>\<open>openapi_schema_validator.validate\<close> with
    \<^verbatim>\<open>OAS30Validator\<close>: \<open>None\<close>, or the text of the exception it raises;
  \<^item> \<open>loads schema\<close> is \<^verbatim>\<open>OpenAPI.loads\<close> on \<^verbatim>\<open>json.dumps(schema)\<close>: the API instance, or
    the text of the exception;
  \<^item> \<open>repr\<close> is the built-in \<^verbatim>\<open>repr\<close>;
  \<^item> \<open>construct schema payload\<close> is \<^verbatim>\<open>schema.get_type().construct(**payload)\<close>;
  \<^item> \<open>build_request\<close> is what \<^verbatim>\<open>predict_api.request\<close> does before it sends (an exception,
    or none), and \<open>process_response\<close> what it does with the response it received.
\<close>

record library =
  validate :: "dict \<Rightarrow> dict \<Rightarrow> string option"
  loads :: "dict \<Rightarrow> string + api_instance"
  repr :: "pyval \<Rightarrow> string"
  construct :: "pyval \<Rightarrow> dict \<Rightarrow> exn + pyval"
  build_request :: "operation \<Rightarrow> dict \<Rightarrow> pyval option \<Rightarrow> exn option"
  process_response :: "operation \<Rightarrow> response \<Rightarrow> exn option"


section \<open>Plugin\<close>

record plugin =
  is_setup_completed :: bool
  api_instance :: "api_instance option"
  api_instance_schema :: "pyval option"
  api_schema :: dict
  api_config :: dict

definition Plugin :: "dict option \<Rightarrow> dict option \<Rightarrow> plugin" where
  "Plugin schema_arg config_arg =
     (case (schema_arg, config_arg) of
        (Some s, Some g) \<Rightarrow>
          (if s \<noteq> [] \<and> g \<noteq> []
           then \<lparr>is_setup_completed = False, api_instance = None, api_instance_schema = None,
                 api_schema = s, api_config = g\<rparr>
           else \<lparr>is_setup_completed = False, api_instance = None, api_instance_schema = None,
                 api_schema = [], api_config = []\<rparr>)
      | _ \<Rightarrow> \<lparr>is_setup_completed = False, api_instance = None, api_instance_schema = None,
               api_schema = [], api_config = []\<rparr>)"

definition custom_session_factory :: "plugin_class \<Rightarrow> transport" where
  "custom_session_factory c =
     OpenAPICustomTransport (cls_api_verify c) (cls_api_retries c)
       (cls_api_rate_limit_timeout c) notify_response_error"

definition perform_validation :: "library \<Rightarrow> plugin \<Rightarrow> bool \<times> string" where
  "perform_validation L self =
     (case validate L (api_config self) (api_schema self) of
        None \<Rightarrow> (True, [])
      | Some error \<Rightarrow> (False, error))"

subsection \<open>setup\<close>

text \<open>
  \<^verbatim>\<open>first.update({"operationId": "predict_api"})\<close> on the first method of the first path.
  The result is the value of \<^verbatim>\<open>paths\<close> after the statement, or the text of the exception
  (\<^verbatim>\<open>len\<close> of a value without length, \<^verbatim>\<open>items\<close> or \<^verbatim>\<open>update\<close> of a value that is no dict).
\<close>

definition tag_first_http :: "pyval \<Rightarrow> string + pyval" where
  "tag_first_http first_api_value =
     (case py_len first_api_value of
        Inl err \<Rightarrow> Inl err
      | Inr n \<Rightarrow>
          (if n > 0 then
             (case first_api_value of
                PDict ((http, first_api_http_value) # others) \<Rightarrow>
                  (case first_api_http_value of
                     PDict d \<Rightarrow>
                       Inr (PDict ((http,
                              PDict (AList.update ''operationId'' (PStr ''predict_api'') d))
                            # others))
                   | v \<Rightarrow> Inl (no_attribute v ''update''))
              | v \<Rightarrow> Inl (no_attribute v ''items''))
           else Inr first_api_value))"

definition tag_first_api :: "pyval \<Rightarrow> string + pyval" where
  "tag_first_api path_to_be_updated =
     (case py_len path_to_be_updated of
        Inl err \<Rightarrow> Inl err
      | Inr n \<Rightarrow>
          (if n > 0 then
             (case path_to_be_updated of
                PDict ((path, first_api_value) # others) \<Rightarrow>
                  (case tag_first_http first_api_value of
                     Inl err \<Rightarrow> Inl err
                   | Inr v \<Rightarrow> Inr (PDict ((path, v) # others)))
              | v \<Rightarrow> Inl (no_attribute v ''items''))
           else Inr path_to_be_updated))"

text \<open>\<^verbatim>\<open>self._api_config.get("authentication", {}).get(key, "")\<close>.\<close>

definition config_credential :: "dict \<Rightarrow> string \<Rightarrow> string + pyval" where
  "config_credential config key =
     (case (case map_of config ''authentication'' of None \<Rightarrow> PDict [] | Some a \<Rightarrow> a) of
        PDict d \<Rightarrow> Inr (case map_of d key of None \<Rightarrow> PStr [] | Some v \<Rightarrow> v)
      | a \<Rightarrow> Inl (no_attribute a ''get''))"

text \<open>
  One iteration of the loop of \<^verbatim>\<open>_setup_api_authentication\<close>, on the entry \<open>api_key\<close> of
  \<^verbatim>\<open>securitySchemes\<close>: the API instance after it and the text of the exception, if one
  was raised.
\<close>

definition authenticate_scheme ::
  "library \<Rightarrow> dict \<Rightarrow> string \<times> security_scheme \<Rightarrow> api_instance
     \<Rightarrow> api_instance \<times> string option" where
  "authenticate_scheme L config entry api =
     (case entry of (api_key, sch) \<Rightarrow>
        (if py_lower (scheme_type sch) = ''http'' then
           (case scheme sch of
              None \<Rightarrow> (api, Some (no_attribute PNone ''lower''))
            | Some http_scheme \<Rightarrow>
                (if py_lower http_scheme = ''bearer'' then
                   (case config_credential config ''token'' of
                      Inl err \<Rightarrow> (api, Some err)
                    | Inr api_token \<Rightarrow>
                        (authenticate api_key (Token (py_str (repr L) api_token)) api, None))
                 else if py_lower http_scheme = ''basic'' then
                   (case config_credential config ''username'' of
                      Inl err \<Rightarrow> (api, Some err)
                    | Inr api_username \<Rightarrow>
                        (case config_credential config ''password'' of
                           Inl err \<Rightarrow> (api, Some err)
                         | Inr api_password \<Rightarrow>
                             (authenticate api_key (UserPass api_username api_password) api,
                              None)))
                 else (api, None)))
         else (api, None)))"

fun authenticate_schemes ::
  "library \<Rightarrow> dict \<Rightarrow> (string \<times> security_scheme) list \<Rightarrow> api_instance
     \<Rightarrow> api_instance \<times> string option" where
  "authenticate_schemes L config [] api = (api, None)"
| "authenticate_schemes L config (entry # rest) api =
     (case authenticate_scheme L config entry api of
        (api1, Some err) \<Rightarrow> (api1, Some err)
      | (api1, None) \<Rightarrow> authenticate_schemes L config rest api1)"

definition setup_api_authentication ::
  "library \<Rightarrow> dict \<Rightarrow> api_instance \<Rightarrow> api_instance \<times> string option" where
  "setup_api_authentication L config api =
     authenticate_schemes L config (securitySchemes api) api"

text \<open>
  \<^verbatim>\<open>setup\<close> returns the pair of the success flag and the message; the model returns the
  instance after the call with it. Every exception raised inside the \<^verbatim>\<open>try\<close> is caught and
  its text returned; the assignments made before it stay.
\<close>

definition Plugin_setup :: "library \<Rightarrow> plugin \<Rightarrow> plugin \<times> bool \<times> string" where
  "Plugin_setup L self =
     (case perform_validation L self of
        (False, error_message) \<Rightarrow> (self, False, error_message)
      | (True, _) \<Rightarrow>
          (case map_of (api_schema self) ''paths'' of
             None \<Rightarrow> (self, False, [CHR 0x27] @ ''paths'' @ [CHR 0x27])
           | Some path_to_be_updated \<Rightarrow>
               (case tag_first_api path_to_be_updated of
                  Inl err \<Rightarrow> (self, False, err)
                | Inr paths \<Rightarrow>
                    (let self1 = self\<lparr>api_schema := AList.update ''paths'' paths (api_schema self)\<rparr>
                     in case loads L (api_schema self1) of
                          Inl err \<Rightarrow> (self1, False, err)
                        | Inr api \<Rightarrow>
                            (case setup_api_authentication L (api_config self1) api of
                               (api1, Some err) \<Rightarrow>
                                 (self1\<lparr>api_instance := Some api1\<rparr>, False, err)
                             | (api1, None) \<Rightarrow>
                                 (self1\<lparr>api_instance := Some api1, is_setup_completed := True\<rparr>,
                                  True, []))))))"

subsection \<open>Building and sending the request\<close>

text \<open>
  \<^verbatim>\<open>self._api_instance._.predict_api\<close>: an \<^verbatim>\<open>AttributeError\<close> while \<^verbatim>\<open>_api_instance\<close> is
  \<^verbatim>\<open>None\<close>, the library's \<^verbatim>\<open>SpecError\<close> when no operation carries the identifier.
\<close>

definition get_predict_api :: "plugin \<Rightarrow> exn + operation" where
  "get_predict_api self =
     (case api_instance self of
        None \<Rightarrow> Inl (AttributeError (no_attribute PNone ''_''))
      | Some api \<Rightarrow>
          (case predict_api api of
             None \<Rightarrow> Inl SpecError
           | Some op \<Rightarrow> Inr op))"

definition get_schema_content :: "plugin \<Rightarrow> exn + pyval" where
  "get_schema_content self =
     (case get_predict_api self of
        Inl e \<Rightarrow> Inl e
      | Inr op \<Rightarrow>
          (case requestBody op of
             None \<Rightarrow> Inl (AttributeError (no_attribute PNone ''content''))
           | Some content \<Rightarrow>
               (case map_of content ''application/json'' of
                  Some s \<Rightarrow> Inr s
                | None \<Rightarrow>
                    (case map_of content ''multipart/form-data'' of
                       Some s \<Rightarrow> Inr s
                     | None \<Rightarrow>
                         (case map_of content ''application/x-www-form-urlencoded'' of
                            Some s \<Rightarrow> Inr s
                          | None \<Rightarrow> Inl (NotImplementedError content))))))"

text \<open>The loop of \<^verbatim>\<open>make_requests\<close> that populates the headers.\<close>

fun populate_headers :: "parameter list \<Rightarrow> dict \<Rightarrow> exn + dict" where
  "populate_headers [] headers = Inr headers"
| "populate_headers (p # ps) headers =
     (if py_lower (in_name p) = ''header'' \<and> required p then
        (case schema p of
           None \<Rightarrow> Inl (AttributeError (no_attribute PNone ''enum''))
         | Some sch \<Rightarrow>
             (case enum sch of
                None \<Rightarrow> Inl (TypeError (no_len ''NoneType''))
              | Some [] \<Rightarrow> populate_headers ps headers
              | Some (v # vs) \<Rightarrow> populate_headers ps (AList.update (param_name p) v headers)))
      else populate_headers ps headers)"

definition payload :: dict where
  "payload =
     [(''age'', PInt 1), (''gender'', PInt 2), (''race'', PInt 3), (''income'', PInt 4),
      (''employment'', PInt 5), (''employment_length'', PInt 6),
      (''total_donated'', PInt 7), (''num_donation'', PInt 8)]"

text \<open>
  \<^verbatim>\<open>predict_api.request(parameters=..., data=...)\<close>. The library builds the HTTP request,
  sends it through the session of \<^verbatim>\<open>custom_session_factory\<close>, whose transport is the
  \<^verbatim>\<open>OpenAPICustomTransport\<close> above, and processes the response. An exception that leaves
  the send (and a transport that hands back no response) reaches the caller as
  \<^verbatim>\<open>aiopenapi3.RequestError\<close>. The value is the third component of the tuple the library
  returns, the response.
\<close>

definition request ::
  "library \<Rightarrow> (int \<Rightarrow> wire_result) \<Rightarrow> operation \<Rightarrow> dict \<Rightarrow> pyval option \<Rightarrow> plugin_class
     \<Rightarrow> response result \<times> plugin_class" where
  "request L wire op parameters data c =
     (case build_request L op parameters data of
        Some e \<Rightarrow> (Raised e, c)
      | None \<Rightarrow>
          (case handle_async_request (custom_session_factory c) wire c of
             (Raised e, c1) \<Rightarrow> (Raised RequestError, c1)
           | (Returned None, c1) \<Rightarrow> (Raised RequestError, c1)
           | (Returned (Some r), c1) \<Rightarrow>
               (case process_response L op r of
                  Some e \<Rightarrow> (Raised e, c1)
                | None \<Rightarrow> (Returned r, c1))))"

definition make_requests ::
  "library \<Rightarrow> (int \<Rightarrow> wire_result) \<Rightarrow> plugin \<Rightarrow> plugin_class
     \<Rightarrow> response result \<times> plugin \<times> plugin_class" where
  "make_requests L wire self c =
     (case get_predict_api self of
        Inl e \<Rightarrow> (Raised e, self, c)
      | Inr op \<Rightarrow>
          (if py_lower (op_method op) = ''post'' then
             (case get_schema_content self of
                Inl e \<Rightarrow> (Raised e, self, c)
              | Inr s \<Rightarrow>
                  (let self1 = self\<lparr>api_instance_schema := Some s\<rparr> in
                   case populate_headers (op_parameters op) [] of
                     Inl e \<Rightarrow> (Raised e, self1, c)
                   | Inr headers \<Rightarrow>
                       (case construct L s payload of
                          Inl e \<Rightarrow> (Raised e, self1, c)
                        | Inr body \<Rightarrow>
                            (case request L wire op headers (Some body) c of
                               (result, c1) \<Rightarrow> (result, self1, c1)))))
           else if py_lower (op_method op) = ''get'' then
             (case request L wire op payload None c of
                (result, c1) \<Rightarrow> (result, self, c1))
           else (Raised (RuntimeError ''Unexpected api method''), self, c)))"

text \<open>
  \<^verbatim>\<open>predict\<close> runs \<^verbatim>\<open>make_requests\<close>, prints the text of the response and ends without a
  \<^verbatim>\<open>return\<close> statement, so its value is \<^verbatim>\<open>None\<close>. On \<^verbatim>\<open>RequestError\<close> it reads the class
  attribute \<^verbatim>\<open>Plugin._response_error_message\<close> directly and raises a \<^verbatim>\<open>RuntimeError\<close>
  with it. The argument \<^verbatim>\<open>data\<close> is not used.
\<close>

definition predict ::
  "library \<Rightarrow> (int \<Rightarrow> wire_result) \<Rightarrow> plugin \<Rightarrow> pyval \<Rightarrow> plugin_class
     \<Rightarrow> pyval result \<times> plugin \<times> plugin_class" where
  "predict L wire self data c =
     (case make_requests L wire self c of
        (Returned responses, self1, c1) \<Rightarrow>
          (Returned PNone, self1, log_event (Print (resp_text responses)) c1)
      | (Raised e, self1, c1) \<Rightarrow>
          (if e = RequestError
           then (Raised (RuntimeError (response_error_message c1)), self1,
                 log_event ReadSlot c1)
           else (Raised e, self1, c1)))"


section \<open>Notions used by the properties\<close>

text \<open>
  An attempt is a retryable failure when the dispatch ends in one of the caught network
  failures or in a response whose status is in the retry list; \<open>retryable_message\<close> is
  the text \<^verbatim>\<open>error_message\<close> then holds, \<open>wire_status\<close> the status handed to
  \<^verbatim>\<open>handle_attempt_retries\<close>.
\<close>

definition retryable_message :: "transport \<Rightarrow> wire_result \<Rightarrow> string option" where
  "retryable_message T w =
     (case w of
        NetFail msg \<Rightarrow> Some msg
      | Resp r \<Rightarrow>
          (if status_code r \<in> set (api_status_code T)
           then map_option (status_message (status_code r)) (HTTPStatus_name (status_code r))
           else None)
      | Uncaught e \<Rightarrow> None)"

definition wire_status :: "wire_result \<Rightarrow> int option" where
  "wire_status w = (case w of Resp r \<Rightarrow> Some (status_code r) | _ \<Rightarrow> None)"

text \<open>
  The delay the specification gives for a retryable attempt that is not the terminal one:
  the rate-limit timeout after a 429, else the floor of \<open>backoffFactor * 2^(attempt - 1)\<close>.
\<close>

definition claimed_delay :: "transport \<Rightarrow> int \<Rightarrow> int option \<Rightarrow> rat" where
  "claimed_delay T attempt status =
     (if status = Some 429 then api_rate_limit_timeout T
      else of_int \<lfloor>api_backoff_factor * 2 powi (attempt - 1)\<rfloor>)"

text \<open>
  \<open>sends L self\<close>: \<^verbatim>\<open>make_requests\<close> on \<open>self\<close> gets as far as handing a request to the
  transport (the operation is found, its method is POST or GET, the body and the
  headers are built, and the library raises nothing before the send).
\<close>

definition sends :: "library \<Rightarrow> plugin \<Rightarrow> bool" where
  "sends L self =
     (case get_predict_api self of
        Inl e \<Rightarrow> False
      | Inr op \<Rightarrow>
          (if py_lower (op_method op) = ''post'' then
             (case get_schema_content self of
                Inl e \<Rightarrow> False
              | Inr s \<Rightarrow>
                  (case populate_headers (op_parameters op) [] of
                     Inl e \<Rightarrow> False
                   | Inr headers \<Rightarrow>
                       (case construct L s payload of
                          Inl e \<Rightarrow> False
                        | Inr body \<Rightarrow> build_request L op headers (Some body) = None)))
           else if py_lower (op_method op) = ''get'' then
             build_request L op payload None = None
           else False))"

text \<open>
  The lock discipline on a log of effects: the lock is taken only when free and released
  only when held, the slot is read and written only while the lock is held, and no
  network dispatch and no sleep happens while it is held. \<open>lock_run held evs\<close> is the
  state of the lock after \<open>evs\<close>, or \<open>None\<close> when an event breaks the discipline.
\<close>

fun lock_step :: "bool \<Rightarrow> event \<Rightarrow> bool option" where
  "lock_step held Acquire = (if held then None else Some True)"
| "lock_step held Release = (if held then Some False else None)"
| "lock_step held ReadSlot = (if held then Some held else None)"
| "lock_step held WriteSlot = (if held then Some held else None)"
| "lock_step held NetIO = (if held then None else Some held)"
| "lock_step held (Sleep d) = (if held then None else Some held)"
| "lock_step held (Print s) = Some held"

fun lock_run :: "bool \<Rightarrow> event list \<Rightarrow> bool option" where
  "lock_run held [] = Some held"
| "lock_run held (e # es) =
     (case lock_step held e of None \<Rightarrow> None | Some h \<Rightarrow> lock_run h es)"

definition lock_discipline :: "event list \<Rightarrow> bool" where
  "lock_discipline evs = (lock_run False evs = Some False)"

text \<open>
  The order in which the request builder looks for a body content type, and the first
  of them an operation declares.
\<close>

definition supported_content_types :: "string list" where
  "supported_content_types =
     [''application/json'', ''multipart/form-data'', ''application/x-www-form-urlencoded'']"

definition resolve_content_type :: "dict \<Rightarrow> string option" where
  "resolve_content_type content =
     find (\<lambda>ct. ct \<in> fst ` set content) supported_content_types"

text \<open>
  The credential \<^verbatim>\<open>_setup_api_authentication\<close> registers for one security scheme; \<open>None\<close>
  for a scheme it passes over.
\<close>

definition is_http :: "security_scheme \<Rightarrow> bool" where
  "is_http sch = (py_lower (scheme_type sch) = ''http'')"

definition has_scheme :: "security_scheme \<Rightarrow> string \<Rightarrow> bool" where
  "has_scheme sch name =
     (case scheme sch of None \<Rightarrow> False | Some h \<Rightarrow> py_lower h = name)"

definition authentication_section :: "dict \<Rightarrow> dict option" where
  "authentication_section config =
     (case map_of config ''authentication'' of
        None \<Rightarrow> Some []
      | Some (PDict d) \<Rightarrow> Some d
      | Some v \<Rightarrow> None)"

definition credential_or_empty :: "dict \<Rightarrow> string \<Rightarrow> pyval" where
  "credential_or_empty d key = (case map_of d key of None \<Rightarrow> PStr [] | Some v \<Rightarrow> v)"

definition registered_credential :: "library \<Rightarrow> dict \<Rightarrow> security_scheme \<Rightarrow> credential option" where
  "registered_credential L d sch =
     (if is_http sch then
        (if has_scheme sch ''bearer''
         then Some (Token (py_str (repr L) (credential_or_empty d ''token'')))
         else if has_scheme sch ''basic''
         then Some (UserPass (credential_or_empty d ''username'')
                      (credential_or_empty d ''password''))
         else None)
      else None)"


section \<open>Example inputs\<close>

text \<open>
  A contract with one POST operation, a required header parameter with an enumeration,
  a JSON request body, a bearer scheme and an API-key scheme; a configuration with a
  token; and a library that accepts the configuration, loads the contract when it has
  an \<^verbatim>\<open>info\<close> section, and raises nothing around the send.
\<close>

definition example_operation :: operation where
  "example_operation =
     \<lparr>op_method = ''post'',
      op_parameters =
        [\<lparr>param_name = ''foo'', in_name = ''header'', required = True,
          schema = Some \<lparr>enum = Some [PStr ''bar'', PStr ''baz'']\<rparr>\<rparr>],
      requestBody = Some [(''application/json'', PDict [(''type'', PStr ''object'')])]\<rparr>"

definition example_api :: api_instance where
  "example_api =
     \<lparr>securitySchemes =
        [(''bearerAuth'', \<lparr>scheme_type = ''http'', scheme = Some ''bearer''\<rparr>),
         (''basicAuth'', \<lparr>scheme_type = ''http'', scheme = Some ''basic''\<rparr>),
         (''keyAuth'', \<lparr>scheme_type = ''apiKey'', scheme = None\<rparr>)],
      predict_api = Some example_operation,
      security = []\<rparr>"

definition example_library :: library where
  "example_library =
     \<lparr>validate = (\<lambda>config schema. None),
      loads = (\<lambda>schema. if map_of schema ''info'' = None
                 then Inl ''info: field required'' else Inr example_api),
      repr = (\<lambda>v. case v of PInt i \<Rightarrow> str_int i | _ \<Rightarrow> ''None''),
      construct = (\<lambda>schema payload. Inr (PDict payload)),
      build_request = (\<lambda>op parameters data. None),
      process_response = (\<lambda>op r. None)\<rparr>"

definition example_paths :: pyval where
  "example_paths = PDict [(''/predict'', PDict [(''post'', PDict [(''summary'', PStr ''predict'')])])]"

definition example_schema :: dict where
  "example_schema =
     [(''openapi'', PStr ''3.0.3''),
      (''info'', PDict [(''title'', PStr ''model''), (''version'', PStr ''1'')]),
      (''paths'', example_paths)]"

definition schema_without_info :: dict where
  "schema_without_info = [(''openapi'', PStr ''3.0.3''), (''paths'', example_paths)]"

definition example_config :: dict where
  "example_config = [(''authentication'', PDict [(''token'', PStr ''secret'')])]"

definition fresh_plugin :: plugin where
  "fresh_plugin = Plugin (Some example_schema) (Some example_config)"

definition plugin_without_info :: plugin where
  "plugin_without_info = Plugin (Some schema_without_info) (Some example_config)"

definition tagged_paths :: pyval where
  "tagged_paths =
     PDict [(''/predict'', PDict [(''post'',
       PDict [(''summary'', PStr ''predict''), (''operationId'', PStr ''predict_api'')])])]"

definition authenticated_api :: api_instance where
  "authenticated_api =
     example_api\<lparr>security :=
       [(''bearerAuth'', Token ''secret''), (''basicAuth'', UserPass (PStr []) (PStr []))]\<rparr>"

definition example_plugin :: plugin where
  "example_plugin =
     \<lparr>is_setup_completed = True,
      api_instance = Some example_api,
      api_instance_schema = None,
      api_schema = example_schema,
      api_config = example_config\<rparr>"

definition ok_response :: response where
  "ok_response = \<lparr>status_code = 200, resp_text = ''[1]''\<rparr>"

definition busy_response :: response where
  "busy_response = \<lparr>status_code = 503, resp_text = ''busy''\<rparr>"

definition wire_ok :: "int \<Rightarrow> wire_result" where
  "wire_ok attempt = Resp ok_response"

definition wire_busy :: "int \<Rightarrow> wire_result" where
  "wire_busy attempt = Resp busy_response"

definition wire_late_ok :: "int \<Rightarrow> wire_result" where
  "wire_late_ok attempt = (if attempt < 3 then Resp busy_response else Resp ok_response)"

definition wire_broken :: "int \<Rightarrow> wire_result" where
  "wire_broken attempt = Uncaught (OtherError ''RemoteProtocolError'')"

text \<open>The same operation with a second required header whose schema has no enumeration.\<close>

definition operation_no_enum :: operation where
  "operation_no_enum =
     example_operation\<lparr>op_parameters :=
       op_parameters example_operation @
         [\<lparr>param_name = ''x-request-id'', in_name = ''header'', required = True,
           schema = Some \<lparr>enum = None\<rparr>\<rparr>]\<rparr>"

definition plugin_no_enum :: plugin where
  "plugin_no_enum =
     example_plugin\<lparr>api_instance := Some (example_api\<lparr>predict_api := Some operation_no_enum\<rparr>)\<rparr>"

text \<open>A second connector instance, whose operation is a GET.\<close>

definition plugin_get :: plugin where
  "plugin_get =
     example_plugin\<lparr>api_instance := Some (example_api\<lparr>predict_api :=
       Some \<lparr>op_method = ''GET'', op_parameters = [], requestBody = None\<rparr>\<rparr>)\<rparr>"

text \<open>The same operation without a request body.\<close>

definition plugin_no_body :: plugin where
  "plugin_no_body =
     example_plugin\<lparr>api_instance := Some (example_api\<lparr>predict_api :=
       Some (example_operation\<lparr>requestBody := None\<rparr>)\<rparr>)\<rparr>"

text \<open>A transport with a retry budget beyond the range of the floats.\<close>

definition patient_transport :: transport where
  "patient_transport = OpenAPICustomTransport False 2000 5 notify_response_error"

text \<open>The same operation with a request body that declares \<^verbatim>\<open>text/plain\<close> only.\<close>

definition plugin_text_plain :: plugin where
  "plugin_text_plain =
     example_plugin\<lparr>api_instance := Some (example_api\<lparr>predict_api :=
       Some (example_operation\<lparr>requestBody := Some [(''text/plain'', PDict [])]\<rparr>)\<rparr>)\<rparr>"


section \<open>Evaluation of the examples\<close>

lemma str_int_3: "str_int 3 = ''3''"
  by (simp add: str_int_def str_nat.simps digit_char_def)

lemma str_int_503: "str_int 503 = ''503''"
  by (simp add: str_int_def str_nat.simps digit_char_def)

lemma upto_0_3: "[0..3::int] = [0, 1, 2, 3]"
  by (simp add: upto_rec1)

lemma py_int_floor: "0 \<le> q \<Longrightarrow> py_int q = \<lfloor>q\<rfloor>"
  by (simp add: py_int_def)

lemma default_transport:
  "custom_session_factory Plugin_class =
     \<lparr>ssl_verify = False, api_retries = 3,
      api_rate_limit_timeout = 5, api_status_code = [429, 500, 502, 503, 504],
      response_error_callback = notify_response_error\<rparr>"
  by (simp add: custom_session_factory_def Plugin_class_def OpenAPICustomTransport_def)

lemma Plugin_class_fields:
  "events Plugin_class = []" "response_error_message Plugin_class = []"
  "cls_api_retries Plugin_class = 3"
  by (simp_all add: Plugin_class_def)

lemmas transport_eval =
  handle_async_request_def default_transport upto_0_3 finally_clause_def after_finally_def
  handle_attempt_retries_def backoff_timing_def backoff_product_def api_backoff_factor_def
  log_event_def HTTPStatus_name_def
  status_message_def str_int_3 str_int_503 max_retries_message_def
  notify_response_error_def py_int_def power_int_minus Let_def Plugin_class_fields

lemma busy_run:
  "handle_async_request (custom_session_factory Plugin_class) wire_busy Plugin_class =
     (Raised (RuntimeError
        ''Maximum retries exceeded (3) Response status code: 503 (SERVICE_UNAVAILABLE)''),
      Plugin_class\<lparr>response_error_message :=
          ''Maximum retries exceeded (3) Response status code: 503 (SERVICE_UNAVAILABLE)'',
        events := [NetIO, Sleep 1, NetIO, Sleep 2, NetIO, Sleep 4, NetIO,
                   Acquire, WriteSlot, Release]\<rparr>)"
  by (simp add: transport_eval wire_busy_def busy_response_def)

lemma late_ok_run:
  "handle_async_request (custom_session_factory Plugin_class) wire_late_ok Plugin_class =
     (Raised (RuntimeError
        ''Maximum retries exceeded (3) Response status code: 503 (SERVICE_UNAVAILABLE)''),
      Plugin_class\<lparr>response_error_message :=
          ''Maximum retries exceeded (3) Response status code: 503 (SERVICE_UNAVAILABLE)'',
        events := [NetIO, Sleep 1, NetIO, Sleep 2, NetIO, Sleep 4, NetIO,
                   Acquire, WriteSlot, Release]\<rparr>)"
  by (simp add: transport_eval wire_late_ok_def busy_response_def ok_response_def)

lemma ok_run:
  "handle_async_request (custom_session_factory Plugin_class) wire_ok Plugin_class =
     (Returned (Some ok_response), Plugin_class\<lparr>events := [NetIO]\<rparr>)"
  by (simp add: transport_eval wire_ok_def ok_response_def upto_rec1)


section \<open>The retry loop\<close>

lemma log_event_slot: "response_error_message (log_event e c) = response_error_message c"
  by (simp add: log_event_def)

lemma handle_attempt_retries_slot:
  "response_error_message (snd (handle_attempt_retries T a s c)) = response_error_message c"
  by (simp add: handle_attempt_retries_def log_event_def split: sum.splits)

lemma backoff_product_floor:
  assumes "attempt < 1024"
  shows "backoff_product attempt = Inr \<lfloor>api_backoff_factor * 2 powi (attempt - 1)\<rfloor>"
proof -
  have "0 \<le> api_backoff_factor * 2 powi (attempt - 1)"
    by (simp add: api_backoff_factor_def)
  then show ?thesis
    using assms by (simp add: backoff_product_def py_int_floor)
qed

lemma backoff_timing_claimed:
  assumes "status \<noteq> Some 429 \<longrightarrow> attempt < 1024"
  shows "backoff_timing T attempt status = Inr (claimed_delay T attempt status)"
  using assms
  by (auto simp: backoff_timing_def claimed_delay_def backoff_product_floor)

lemma handle_attempt_retries_sleeps:
  assumes "attempt \<noteq> api_retries T" and "status \<noteq> Some 429 \<longrightarrow> attempt < 1024"
  shows "handle_attempt_retries T attempt status c =
           (None, log_event (Sleep (claimed_delay T attempt status)) c)"
  using assms by (simp add: handle_attempt_retries_def backoff_timing_claimed)

lemma handle_attempt_retries_terminal:
  "handle_attempt_retries T (api_retries T) status c = (None, c)"
  by (simp add: handle_attempt_retries_def)

lemma retryable_status:
  assumes "retryable_message T w = Some m"
  shows "(\<exists>t. w = NetFail t \<and> m = t \<and> wire_status w = None)
       \<or> (\<exists>r name. w = Resp r \<and> status_code r \<in> set (api_status_code T)
             \<and> HTTPStatus_name (status_code r) = Some name
             \<and> m = status_message (status_code r) name
             \<and> wire_status w = Some (status_code r))"
  using assms
  by (auto simp: retryable_message_def wire_status_def split: wire_result.splits if_splits)

lemma attempts_retry_step:
  assumes "a \<noteq> api_retries T" and "retryable_message T (wire a) = Some m"
    and "wire_status (wire a) \<noteq> Some 429 \<longrightarrow> a < 1024"
  shows "attempts T wire (a # rest) em c =
         attempts T wire rest m
           (log_event (Sleep (claimed_delay T a (wire_status (wire a)))) (log_event NetIO c))"
  using retryable_status [OF assms(2)] assms(1,3)
  by (auto simp: handle_attempt_retries_sleeps after_finally_def finally_clause_def)

lemma attempts_terminal:
  assumes "retryable_message T (wire (api_retries T)) = Some msg"
  shows "attempts T wire (api_retries T # rest) em c =
           (Raised (RuntimeError (max_retries_message T msg)),
            response_error_callback T (max_retries_message T msg) (log_event NetIO c))"
  using retryable_status [OF assms]
  by (auto simp: handle_attempt_retries_terminal after_finally_def finally_clause_def)

text \<open>
  A response outside the retry list: returned as it is on an attempt that is not the
  terminal one, replaced by the error of the \<^verbatim>\<open>finally\<close> clause on the terminal one.
\<close>

lemma attempts_response_returned:
  assumes "a \<noteq> api_retries T" and "wire a = Resp r"
    and "status_code r \<notin> set (api_status_code T)"
  shows "attempts T wire (a # rest) em c = (Returned (Some r), log_event NetIO c)"
  using assms by (simp add: after_finally_def finally_clause_def)

lemma attempts_terminal_response:
  assumes "wire (api_retries T) = Resp r" and "status_code r \<notin> set (api_status_code T)"
  shows "attempts T wire (api_retries T # rest) em c =
           (Raised (RuntimeError (max_retries_message T em)),
            response_error_callback T (max_retries_message T em) (log_event NetIO c))"
  using assms by (simp add: after_finally_def finally_clause_def)

text \<open>
  From attempt 1024 on, the backoff after a failure that is no 429 cannot be computed:
  the call ends with the \<^verbatim>\<open>OverflowError\<close>, without a sleep and without a write.
\<close>

lemma attempts_overflow:
  assumes "a \<noteq> api_retries T" and "retryable_message T (wire a) = Some m"
    and "wire_status (wire a) \<noteq> Some 429" and "1024 \<le> a"
  shows "\<exists>text. attempts T wire (a # rest) em c = (Raised (OverflowError text), log_event NetIO c)"
  using retryable_status [OF assms(2)] assms(1,3,4)
  by (auto simp: handle_attempt_retries_def backoff_timing_def backoff_product_def
      after_finally_def finally_clause_def)

lemma attempts_exhaust:
  assumes "\<forall>a\<in>set as. a \<noteq> api_retries T \<and> retryable_message T (wire a) \<noteq> None
             \<and> (wire_status (wire a) \<noteq> Some 429 \<longrightarrow> a < 1024)"
    and "retryable_message T (wire (api_retries T)) = Some msg"
  shows "attempts T wire (as @ [api_retries T]) em c =
           (Raised (RuntimeError (max_retries_message T msg)),
            response_error_callback T (max_retries_message T msg)
              (c\<lparr>events := events c
                 @ concat (map (\<lambda>a. [NetIO, Sleep (claimed_delay T a (wire_status (wire a)))]) as)
                 @ [NetIO]\<rparr>))"
  using assms
proof (induction as arbitrary: em c)
  case Nil
  show ?case
    using attempts_terminal [of T wire msg "[]" em c] Nil.prems(2)
    by (simp del: attempts.simps add: log_event_def)
next
  case (Cons a as)
  from Cons.prems obtain m where m: "retryable_message T (wire a) = Some m"
    and a: "a \<noteq> api_retries T" and r: "wire_status (wire a) \<noteq> Some 429 \<longrightarrow> a < 1024"
    by auto
  let ?c = "log_event (Sleep (claimed_delay T a (wire_status (wire a)))) (log_event NetIO c)"
  have step: "attempts T wire ((a # as) @ [api_retries T]) em c =
      attempts T wire (as @ [api_retries T]) m ?c"
    using attempts_retry_step [of a T wire m "as @ [api_retries T]" em c] a m r
    by (simp del: attempts.simps)
  have "attempts T wire (as @ [api_retries T]) m ?c =
      (Raised (RuntimeError (max_retries_message T msg)),
       response_error_callback T (max_retries_message T msg)
         (?c\<lparr>events := events ?c
            @ concat (map (\<lambda>a. [NetIO, Sleep (claimed_delay T a (wire_status (wire a)))]) as)
            @ [NetIO]\<rparr>))"
    using Cons.IH [of m ?c] Cons.prems by simp
  then show ?case
    using step by (simp del: attempts.simps add: log_event_def)
qed

lemma handle_async_request_exhaust:
  assumes "0 \<le> api_retries T"
    and "\<forall>a\<in>{0..api_retries T}. retryable_message T (wire a) \<noteq> None"
    and "\<forall>a\<in>{0..<api_retries T}. wire_status (wire a) \<noteq> Some 429 \<longrightarrow> a < 1024"
    and "retryable_message T (wire (api_retries T)) = Some msg"
  shows "handle_async_request T wire c =
           (Raised (RuntimeError (max_retries_message T msg)),
            response_error_callback T (max_retries_message T msg)
              (c\<lparr>events := events c
                 @ concat (map (\<lambda>a. [NetIO, Sleep (claimed_delay T a (wire_status (wire a)))])
                     [0..api_retries T - 1])
                 @ [NetIO]\<rparr>))"
proof -
  have "[0..api_retries T] = [0..api_retries T - 1] @ [api_retries T]"
    using assms(1) by (simp add: upto_rec2)
  moreover have "\<forall>a\<in>set [0..api_retries T - 1]. a \<noteq> api_retries T
      \<and> retryable_message T (wire a) \<noteq> None
      \<and> (wire_status (wire a) \<noteq> Some 429 \<longrightarrow> a < 1024)"
    using assms(2,3) by auto
  ultimately show ?thesis
    using attempts_exhaust [of "[0..api_retries T - 1]" T wire msg "[]" c] assms(4)
    by (simp del: attempts.simps add: handle_async_request_def)
qed

section \<open>Requests through the transport\<close>

lemma py_lower_post: "py_lower ''post'' = ''post''"
  by (simp add: py_lower_def lower_char_def)

lemma py_lower_header: "py_lower ''header'' = ''header''"
  by (simp add: py_lower_def lower_char_def)

lemma example_get_predict_api: "get_predict_api example_plugin = Inr example_operation"
  by (simp add: get_predict_api_def example_plugin_def example_api_def)

lemma example_get_schema_content:
  "get_schema_content example_plugin = Inr (PDict [(''type'', PStr ''object'')])"
  by (simp add: get_schema_content_def example_get_predict_api example_operation_def)

lemma example_populate_headers:
  "populate_headers (op_parameters example_operation) [] = Inr [(''foo'', PStr ''bar'')]"
  by (simp add: example_operation_def py_lower_header)

lemma example_sends: "sends example_library example_plugin"
  by (simp add: sends_def example_get_predict_api example_get_schema_content
      example_populate_headers py_lower_post example_library_def)
     (simp add: example_operation_def py_lower_post)

lemma make_requests_transport_raises:
  assumes "sends L self"
    and "handle_async_request (custom_session_factory c) wire c = (Raised e, c1)"
  shows "\<exists>self1. make_requests L wire self c = (Raised RequestError, self1, c1)"
  using assms
  by (auto simp: sends_def make_requests_def request_def Let_def
      split: sum.splits if_splits option.splits)

lemma predict_transport_raises:
  assumes "sends L self"
    and "handle_async_request (custom_session_factory c) wire c = (Raised e, c1)"
  shows "\<exists>self1. predict L wire self data c =
           (Raised (RuntimeError (response_error_message c1)), self1, log_event ReadSlot c1)"
proof -
  from make_requests_transport_raises [OF assms] obtain self1 where
    "make_requests L wire self c = (Raised RequestError, self1, c1)" ..
  then show ?thesis
    by (simp add: predict_def)
qed

lemma notify_slot: "response_error_message (notify_response_error m c) = m"
  by (simp add: notify_response_error_def log_event_def Let_def)

lemma notify_events: "events (notify_response_error m c) = events c @ [Acquire, WriteSlot, Release]"
  by (simp add: notify_response_error_def log_event_def Let_def)

lemma callback_custom: "response_error_callback (custom_session_factory c) = notify_response_error"
  by (simp add: custom_session_factory_def OpenAPICustomTransport_def)

lemma retries_custom: "api_retries (custom_session_factory c) = cls_api_retries c"
  by (simp add: custom_session_factory_def OpenAPICustomTransport_def)

lemma retryable_message_cases:
  assumes "retryable_message T w = Some msg"
  shows "(\<forall>t. w = NetFail t \<longrightarrow> msg = t) \<and>
         (\<forall>r. w = Resp r \<longrightarrow> status_code r \<in> set (api_status_code T) \<and>
            (\<exists>name. HTTPStatus_name (status_code r) = Some name \<and>
               msg = ''Response status code: '' @ str_int (status_code r)
                       @ '' ('' @ name @ '')''))"
  using assms
  by (auto simp: retryable_message_def status_message_def split: wire_result.splits if_splits)

lemma busy_retryable:
  "retryable_message (custom_session_factory Plugin_class) (wire_busy a) =
     Some ''Response status code: 503 (SERVICE_UNAVAILABLE)''"
  by (simp add: retryable_message_def wire_busy_def busy_response_def default_transport
      HTTPStatus_name_def status_message_def str_int_503)

lemma busy_status: "wire_status (wire_busy a) = Some 503"
  by (simp add: wire_status_def wire_busy_def busy_response_def)


section \<open>Properties of the transport\<close>

text \<open>
  C2. A response whose status is outside the retry list is to be returned as it is, on
  every attempt, the terminal one included. On the terminal attempt the \<^verbatim>\<open>finally\<close> clause
  raises all the same: with the settings of the class (three retries), three 503 responses
  and then a 200 response end in the \<^verbatim>\<open>RuntimeError\<close> of the exhausted budget, with the text
  of the attempt before, and the error slot is written.
\<close>

theorem terminal_response_raises:
  "handle_async_request (custom_session_factory Plugin_class) wire_late_ok Plugin_class =
     (Raised (RuntimeError
        ''Maximum retries exceeded (3) Response status code: 503 (SERVICE_UNAVAILABLE)''),
      Plugin_class\<lparr>response_error_message :=
          ''Maximum retries exceeded (3) Response status code: 503 (SERVICE_UNAVAILABLE)'',
        events := [NetIO, Sleep 1, NetIO, Sleep 2, NetIO, Sleep 4, NetIO,
                   Acquire, WriteSlot, Release]\<rparr>)"
  by (rule late_ok_run)

text \<open>
  C3, as amended. When all \<open>maxRetries + 1\<close> attempts are made and are retryable failures
  (an attempt is reached only if no backoff before it overflows, which a 429 never does
  and another failure does from attempt 1024 on), the transport raises the error with the
  text \<open>Maximum retries exceeded (maxRetries) msg\<close>, where \<open>msg\<close> is the text of the last
  attempt: the text of the network failure, or \<open>Response status code: code (name)\<close> with
  \<open>name\<close> the name of the \<^verbatim>\<open>HTTPStatus\<close> member (as \<^verbatim>\<open>SERVICE_UNAVAILABLE\<close>), not the
  reason phrase. Before it raises, the error slot is written with that text while the lock
  is held, and \<^verbatim>\<open>predict\<close> raises a \<^verbatim>\<open>RuntimeError\<close> with the same text, which begins with
  \<open>Maximum retries exceeded\<close>.
\<close>

theorem retries_exhausted:
  assumes "0 \<le> cls_api_retries c"
    and "\<forall>a\<in>{0..cls_api_retries c}. retryable_message (custom_session_factory c) (wire a) \<noteq> None"
    and "\<forall>a\<in>{0..<cls_api_retries c}. wire_status (wire a) \<noteq> Some 429 \<longrightarrow> a < 1024"
    and "retryable_message (custom_session_factory c) (wire (cls_api_retries c)) = Some msg"
    and "sends L self"
    and "m = ''Maximum retries exceeded ('' @ str_int (cls_api_retries c) @ '') '' @ msg"
  shows "\<exists>c1 self1.
           handle_async_request (custom_session_factory c) wire c =
             (Raised (RuntimeError m), notify_response_error m c1)
         \<and> response_error_message c1 = response_error_message c
         \<and> response_error_message (notify_response_error m c1) = m
         \<and> events (notify_response_error m c1) = events c1 @ [Acquire, WriteSlot, Release]
         \<and> predict L wire self data c =
             (Raised (RuntimeError m), self1, log_event ReadSlot (notify_response_error m c1))
         \<and> prefix ''Maximum retries exceeded'' m
         \<and> (\<forall>t. wire (cls_api_retries c) = NetFail t \<longrightarrow> msg = t)
         \<and> (\<forall>r. wire (cls_api_retries c) = Resp r \<longrightarrow>
               (\<exists>name. HTTPStatus_name (status_code r) = Some name \<and>
                  msg = ''Response status code: '' @ str_int (status_code r)
                          @ '' ('' @ name @ '')''))"
proof -
  let ?T = "custom_session_factory c"
  have m: "m = max_retries_message ?T msg"
    using assms(6) by (simp add: max_retries_message_def retries_custom)
  from handle_async_request_exhaust [of ?T wire msg c] assms(1-4)
  obtain c1 where run: "handle_async_request ?T wire c =
      (Raised (RuntimeError m), notify_response_error m c1)"
    and slot: "response_error_message c1 = response_error_message c"
    by (auto simp: retries_custom callback_custom m)
  from predict_transport_raises [OF assms(5) run, of data]
  obtain self1 where "predict L wire self data c =
      (Raised (RuntimeError m), self1, log_event ReadSlot (notify_response_error m c1))"
    by (auto simp: notify_slot)
  moreover have "prefix ''Maximum retries exceeded'' m"
    unfolding assms(6) by (simp add: prefix_def)
  ultimately show ?thesis
    using run slot retryable_message_cases [OF assms(4)]
    by (auto simp: notify_slot notify_events retries_custom)
qed

theorem retries_exhausted_witness:
  "0 \<le> cls_api_retries Plugin_class
   \<and> retryable_message (custom_session_factory Plugin_class) (wire_busy 0) \<noteq> None
   \<and> sends example_library example_plugin
   \<and> (\<exists>self1 c1. predict example_library wire_busy example_plugin PNone Plugin_class =
         (Raised (RuntimeError
            ''Maximum retries exceeded (3) Response status code: 503 (SERVICE_UNAVAILABLE)''),
          self1, c1)
       \<and> response_error_message c1 =
            ''Maximum retries exceeded (3) Response status code: 503 (SERVICE_UNAVAILABLE)'')"
proof -
  have h1: "0 \<le> cls_api_retries Plugin_class"
    by (simp add: Plugin_class_fields)
  have h2: "\<forall>a\<in>{0..cls_api_retries Plugin_class}.
      retryable_message (custom_session_factory Plugin_class) (wire_busy a) \<noteq> None"
    by (simp add: busy_retryable)
  have h3: "\<forall>a\<in>{0..<cls_api_retries Plugin_class}.
      wire_status (wire_busy a) \<noteq> Some 429 \<longrightarrow> a < 1024"
    by (simp add: Plugin_class_fields)
  have h4: "retryable_message (custom_session_factory Plugin_class)
      (wire_busy (cls_api_retries Plugin_class)) =
        Some ''Response status code: 503 (SERVICE_UNAVAILABLE)''"
    by (rule busy_retryable)
  have h6: "''Maximum retries exceeded (3) Response status code: 503 (SERVICE_UNAVAILABLE)'' =
      ''Maximum retries exceeded ('' @ str_int (cls_api_retries Plugin_class) @ '') ''
        @ ''Response status code: 503 (SERVICE_UNAVAILABLE)''"
    by (simp add: Plugin_class_fields str_int_3)
  from retries_exhausted [OF h1 h2 h3 h4 example_sends h6, of PNone]
  show ?thesis
    using h1 example_sends
    by (auto simp: log_event_def notify_slot busy_retryable)
qed

text \<open>
  The claim as stated puts the reason phrase between the parentheses; for 503 that is
  \<open>Service Unavailable\<close>, and the text raised is another one.
\<close>

theorem reason_phrase_counterexample:
  "HTTPStatus_phrase 503 = Some ''Service Unavailable''
   \<and> fst (handle_async_request (custom_session_factory Plugin_class) wire_busy Plugin_class) \<noteq>
       Raised (RuntimeError
         ''Maximum retries exceeded (3) Response status code: 503 (Service Unavailable)'')"
  by (simp add: busy_run HTTPStatus_phrase_def)

lemma claimed_delay_values:
  "claimed_delay T a (Some 429) = api_rate_limit_timeout T"
  "status \<noteq> Some 429 \<Longrightarrow> claimed_delay T 0 status = 1"
  "status \<noteq> Some 429 \<Longrightarrow> claimed_delay T 1 status = 2"
  "status \<noteq> Some 429 \<Longrightarrow> claimed_delay T 2 status = 4"
  by (simp_all add: claimed_delay_def api_backoff_factor_def power_int_minus)

text \<open>
  C4, as amended. In \<^verbatim>\<open>handle_attempt_retries\<close> and in the retry loop alike, an attempt that
  is a retryable failure and not the terminal one is followed by one sleep: of the
  rate-limit timeout when the status is 429, whatever the attempt, and otherwise, for an
  attempt below 1024, of the floor of \<open>backoffFactor * 2^(attempt - 1)\<close>, where the factor is
  the constant 2. The terminal attempt is followed by no sleep: the error slot is written
  and the error raised. So a run of failing attempts consists of a dispatch and the sleep
  of each attempt before the terminal one, then the last dispatch and the write; with
  three retries the sleeps after the attempts 0, 1, 2 are of 1, 2, 4 seconds.
\<close>

theorem backoff_delays:
  "(attempt \<noteq> api_retries T \<and> (status \<noteq> Some 429 \<longrightarrow> attempt < 1024) \<longrightarrow>
      handle_attempt_retries T attempt status c =
        (None, log_event (Sleep (claimed_delay T attempt status)) c))
   \<and> (attempt = api_retries T \<longrightarrow> handle_attempt_retries T attempt status c = (None, c))
   \<and> (a \<noteq> api_retries T \<and> retryable_message T (wire a) = Some m
        \<and> (wire_status (wire a) \<noteq> Some 429 \<longrightarrow> a < 1024) \<longrightarrow>
      attempts T wire (a # rest) em c =
        attempts T wire rest m
          (log_event (Sleep (claimed_delay T a (wire_status (wire a)))) (log_event NetIO c)))
   \<and> (retryable_message T (wire (api_retries T)) = Some m \<longrightarrow>
      attempts T wire (api_retries T # rest) em c =
        (Raised (RuntimeError (max_retries_message T m)),
         response_error_callback T (max_retries_message T m) (log_event NetIO c)))
   \<and> (0 \<le> api_retries T
        \<and> (\<forall>k\<in>{0..api_retries T}. retryable_message T (wire k) \<noteq> None)
        \<and> (\<forall>k\<in>{0..<api_retries T}. wire_status (wire k) \<noteq> Some 429 \<longrightarrow> k < 1024)
        \<and> response_error_callback T = notify_response_error \<longrightarrow>
      events (snd (handle_async_request T wire c)) =
        events c
        @ concat (map (\<lambda>k. [NetIO, Sleep (claimed_delay T k (wire_status (wire k)))])
            [0..api_retries T - 1])
        @ [NetIO, Acquire, WriteSlot, Release])
   \<and> claimed_delay T attempt (Some 429) = api_rate_limit_timeout T
   \<and> (status \<noteq> Some 429 \<longrightarrow>
        claimed_delay T attempt status = of_int \<lfloor>api_backoff_factor * 2 powi (attempt - 1)\<rfloor>
        \<and> api_backoff_factor = 2
        \<and> map (\<lambda>k. claimed_delay T k status) [0, 1, 2] = [1, 2, 4])"
proof -
  have A: "attempt \<noteq> api_retries T \<and> (status \<noteq> Some 429 \<longrightarrow> attempt < 1024) \<longrightarrow>
      handle_attempt_retries T attempt status c =
        (None, log_event (Sleep (claimed_delay T attempt status)) c)"
    by (simp add: handle_attempt_retries_sleeps)
  have B: "attempt = api_retries T \<longrightarrow> handle_attempt_retries T attempt status c = (None, c)"
    by (simp add: handle_attempt_retries_terminal)
  have C: "a \<noteq> api_retries T \<and> retryable_message T (wire a) = Some m
        \<and> (wire_status (wire a) \<noteq> Some 429 \<longrightarrow> a < 1024) \<longrightarrow>
      attempts T wire (a # rest) em c =
        attempts T wire rest m
          (log_event (Sleep (claimed_delay T a (wire_status (wire a)))) (log_event NetIO c))"
    using attempts_retry_step [of a T wire m rest em c] by blast
  have D: "retryable_message T (wire (api_retries T)) = Some m \<longrightarrow>
      attempts T wire (api_retries T # rest) em c =
        (Raised (RuntimeError (max_retries_message T m)),
         response_error_callback T (max_retries_message T m) (log_event NetIO c))"
    using attempts_terminal [of T wire m rest em c] by blast
  have E: "0 \<le> api_retries T
        \<and> (\<forall>k\<in>{0..api_retries T}. retryable_message T (wire k) \<noteq> None)
        \<and> (\<forall>k\<in>{0..<api_retries T}. wire_status (wire k) \<noteq> Some 429 \<longrightarrow> k < 1024)
        \<and> response_error_callback T = notify_response_error \<longrightarrow>
      events (snd (handle_async_request T wire c)) =
        events c
        @ concat (map (\<lambda>k. [NetIO, Sleep (claimed_delay T k (wire_status (wire k)))])
            [0..api_retries T - 1])
        @ [NetIO, Acquire, WriteSlot, Release]"
  proof (intro impI, elim conjE)
    assume h: "0 \<le> api_retries T"
      "\<forall>k\<in>{0..api_retries T}. retryable_message T (wire k) \<noteq> None"
      "\<forall>k\<in>{0..<api_retries T}. wire_status (wire k) \<noteq> Some 429 \<longrightarrow> k < 1024"
      "response_error_callback T = notify_response_error"
    from h(1,2) obtain msg where msg: "retryable_message T (wire (api_retries T)) = Some msg"
      by force
    show "events (snd (handle_async_request T wire c)) =
        events c
        @ concat (map (\<lambda>k. [NetIO, Sleep (claimed_delay T k (wire_status (wire k)))])
            [0..api_retries T - 1])
        @ [NetIO, Acquire, WriteSlot, Release]"
      using handle_async_request_exhaust [OF h(1,2,3) msg, of c] h(4)
      by (simp add: notify_events)
  qed
  have F: "claimed_delay T attempt (Some 429) = api_rate_limit_timeout T"
    by (simp add: claimed_delay_values)
  have G: "status \<noteq> Some 429 \<longrightarrow>
        claimed_delay T attempt status = of_int \<lfloor>api_backoff_factor * 2 powi (attempt - 1)\<rfloor>
        \<and> api_backoff_factor = 2
        \<and> map (\<lambda>k. claimed_delay T k status) [0, 1, 2] = [1, 2, 4]"
    by (simp add: claimed_delay_values) (simp add: claimed_delay_def api_backoff_factor_def)
  from A B C D E F G show ?thesis
    by (intro conjI)
qed

text \<open>
  The claim as stated gives the delay \<open>2^1024\<close> to attempt 1024 of a budget of 2000
  retries. No float holds it: after a 503 on that attempt nothing is slept, and the call
  ends with an \<^verbatim>\<open>OverflowError\<close>.
\<close>

theorem backoff_delays_counterexample:
  "api_retries patient_transport = 2000
   \<and> handle_attempt_retries patient_transport 1024 (Some 503) Plugin_class =
       (Some (OverflowError ''cannot convert float infinity to integer''), Plugin_class)
   \<and> attempts patient_transport wire_busy [1024] [] Plugin_class =
       (Raised (OverflowError ''cannot convert float infinity to integer''),
        Plugin_class\<lparr>events := [NetIO]\<rparr>)"
  by (simp add: patient_transport_def OpenAPICustomTransport_def handle_attempt_retries_def
      backoff_timing_def backoff_product_def wire_busy_def busy_response_def
      HTTPStatus_name_def after_finally_def finally_clause_def log_event_def
      Plugin_class_fields)

theorem backoff_delays_witness:
  "events (snd (handle_async_request (custom_session_factory Plugin_class) wire_busy Plugin_class)) =
     [NetIO, Sleep 1, NetIO, Sleep 2, NetIO, Sleep 4, NetIO, Acquire, WriteSlot, Release]
   \<and> handle_attempt_retries (custom_session_factory Plugin_class) 2 (Some 429) Plugin_class =
       (None, log_event (Sleep 5) Plugin_class)
   \<and> handle_attempt_retries (custom_session_factory Plugin_class) 3 (Some 429) Plugin_class =
       (None, Plugin_class)"
proof -
  let ?T = "custom_session_factory Plugin_class"
  have r: "api_retries ?T = 3" "api_rate_limit_timeout ?T = 5"
    by (simp_all add: default_transport)
  have h1: "0 \<le> api_retries ?T"
    by (simp add: r)
  have h2: "\<forall>k\<in>{0..api_retries ?T}. retryable_message ?T (wire_busy k) \<noteq> None"
    by (simp add: busy_retryable)
  have h3: "\<forall>k\<in>{0..<api_retries ?T}. wire_status (wire_busy k) \<noteq> Some 429 \<longrightarrow> k < 1024"
    by (simp add: r)
  have h4: "response_error_callback ?T = notify_response_error"
    by (rule callback_custom)
  note loop = backoff_delays [of 2 ?T "Some 429" Plugin_class 0 wire_busy "[]" "[]" "[]",
      THEN conjunct2, THEN conjunct2, THEN conjunct2, THEN conjunct2, THEN conjunct1, THEN mp,
      OF conjI [OF h1 conjI [OF h2 conjI [OF h3 h4]]]]
  have sleeps: "concat (map (\<lambda>k. [NetIO, Sleep (claimed_delay ?T k (wire_status (wire_busy k)))])
      [0..api_retries ?T - 1]) = [NetIO, Sleep 1, NetIO, Sleep 2, NetIO, Sleep 4]"
    by (simp add: r busy_status upto_rec1 claimed_delay_values)
  have e: "events (snd (handle_async_request ?T wire_busy Plugin_class)) =
     [NetIO, Sleep 1, NetIO, Sleep 2, NetIO, Sleep 4, NetIO, Acquire, WriteSlot, Release]"
    using loop unfolding sleeps by (simp add: Plugin_class_fields)
  have s: "handle_attempt_retries ?T 2 (Some 429) Plugin_class =
       (None, log_event (Sleep 5) Plugin_class)"
    using backoff_delays [of 2 ?T "Some 429" Plugin_class 0 wire_busy "[]" "[]" "[]",
      THEN conjunct1]
    by (simp add: r claimed_delay_values)
  have t: "handle_attempt_retries ?T 3 (Some 429) Plugin_class = (None, Plugin_class)"
    using backoff_delays [of 3 ?T "Some 429" Plugin_class 0 wire_busy "[]" "[]" "[]",
      THEN conjunct2, THEN conjunct1]
    by (simp add: r)
  from e s t show ?thesis by simp
qed

section \<open>Evaluation of predict on the examples\<close>

lemma example_method: "py_lower (op_method example_operation) = ''post''"
  by (simp add: example_operation_def py_lower_post)

lemma example_library_fields:
  "construct example_library s p = Inr (PDict p)"
  "build_request example_library op ps d = None"
  "process_response example_library op r = None"
  "validate example_library g sc = None"
  by (simp_all add: example_library_def)

lemma example_make_requests_ok:
  "make_requests example_library wire_ok example_plugin Plugin_class =
     (Returned ok_response,
      example_plugin\<lparr>api_instance_schema := Some (PDict [(''type'', PStr ''object'')])\<rparr>,
      Plugin_class\<lparr>events := [NetIO]\<rparr>)"
  by (simp add: make_requests_def example_get_predict_api example_get_schema_content
      example_populate_headers request_def ok_run Let_def example_method
      example_library_fields)

lemma example_predict_busy:
  "predict example_library wire_busy example_plugin PNone Plugin_class =
     (Raised (RuntimeError
        ''Maximum retries exceeded (3) Response status code: 503 (SERVICE_UNAVAILABLE)''),
      example_plugin\<lparr>api_instance_schema := Some (PDict [(''type'', PStr ''object'')])\<rparr>,
      Plugin_class\<lparr>response_error_message :=
          ''Maximum retries exceeded (3) Response status code: 503 (SERVICE_UNAVAILABLE)'',
        events := [NetIO, Sleep 1, NetIO, Sleep 2, NetIO, Sleep 4, NetIO,
                   Acquire, WriteSlot, Release, ReadSlot]\<rparr>)"
  by (simp add: predict_def make_requests_def example_get_predict_api example_get_schema_content
      example_populate_headers request_def busy_run Let_def log_event_def example_method
      example_library_fields)

lemma py_lower_GET: "py_lower ''GET'' = ''get''"
  by (simp add: py_lower_def lower_char_def)

lemma plugin_get_sends: "sends example_library plugin_get"
  by (simp add: sends_def get_predict_api_def plugin_get_def example_plugin_def example_api_def
      py_lower_GET example_library_fields)


section \<open>Invariants of the retry loop\<close>

text \<open>
  A property of the class state that a logged dispatch, a logged sleep and the error
  callback keep is kept by the whole loop.
\<close>

lemma invariant_handle_attempt_retries:
  assumes "P c" and "\<And>d c. P c \<Longrightarrow> P (log_event (Sleep d) c)"
  shows "P (snd (handle_attempt_retries T a s c))"
  using assms by (simp add: handle_attempt_retries_def split: sum.splits)

lemma invariant_after_finally:
  assumes "P c1"
    and "\<And>m c. P c \<Longrightarrow> P (response_error_callback T m c)"
    and "\<And>c2. P c2 \<Longrightarrow> P (snd (k c2))"
  shows "P (snd (after_finally T a m pending c1 k))"
proof (cases "finally_clause T a m c1")
  case (Pair x c2)
  have "P (snd (finally_clause T a m c1))"
    using assms(1,2) by (simp add: finally_clause_def)
  with Pair have "P c2" by simp
  with Pair assms(3) show ?thesis
    by (cases x; cases pending) (simp_all add: after_finally_def)
qed

lemma attempts_invariant:
  assumes "P c"
    and "\<And>c. P c \<Longrightarrow> P (log_event NetIO c)"
    and "\<And>d c. P c \<Longrightarrow> P (log_event (Sleep d) c)"
    and "\<And>m c. P c \<Longrightarrow> P (response_error_callback T m c)"
  shows "P (snd (attempts T wire as em c))"
  using assms(1)
proof (induction as arbitrary: em c)
  case Nil
  then show ?case by simp
next
  case (Cons a as)
  have io: "P (log_event NetIO c)"
    using Cons.prems by (rule assms(2))
  have slept: "\<And>s. P (snd (handle_attempt_retries T a s (log_event NetIO c)))"
    using io assms(3) by (rule invariant_handle_attempt_retries)
  show ?case
    using io slept Cons.IH assms(4)
    by (auto simp: case_prod_beta split: wire_result.splits option.splits
        intro!: invariant_after_finally [where P = P])
qed


section \<open>The lock discipline of the transport\<close>

text \<open>
  Whatever the network does, the effects of \<^verbatim>\<open>_notify_response_error\<close>,
  \<^verbatim>\<open>_get_response_error\<close> and \<^verbatim>\<open>handle_async_request\<close> keep the discipline: the slot is
  touched inside the lock only, and every dispatch and every sleep happens outside it.
\<close>

lemma lock_run_append:
  "lock_run h (xs @ ys) = (case lock_run h xs of None \<Rightarrow> None | Some h' \<Rightarrow> lock_run h' ys)"
  by (induction xs arbitrary: h) (auto split: option.splits)

lemma lock_log_free:
  assumes "lock_discipline (events c)" and "e = NetIO \<or> (\<exists>d. e = Sleep d) \<or> (\<exists>s. e = Print s)"
  shows "lock_discipline (events (log_event e c))"
  using assms by (auto simp: lock_discipline_def log_event_def lock_run_append)

lemma lock_notify:
  assumes "lock_discipline (events c)"
  shows "lock_discipline (events (notify_response_error m c))"
  using assms by (simp add: lock_discipline_def notify_events lock_run_append)

lemma lock_get:
  assumes "lock_discipline (events c)"
  shows "lock_discipline (events (snd (get_response_error c)))"
  using assms
  by (simp add: lock_discipline_def get_response_error_def log_event_def Let_def lock_run_append)

lemma lock_attempts:
  assumes "lock_discipline (events c)" and "response_error_callback T = notify_response_error"
  shows "lock_discipline (events (snd (attempts T wire as em c)))"
  using assms(1)
  by (rule attempts_invariant [where P = "\<lambda>c. lock_discipline (events c)"])
     (simp_all add: lock_log_free lock_notify assms(2))

lemma lock_handle_async_request:
  assumes "lock_discipline (events c)"
  shows "lock_discipline (events (snd (handle_async_request (custom_session_factory c) wire c)))"
  unfolding handle_async_request_def
  by (rule lock_attempts [OF assms callback_custom])


section \<open>The class settings are not changed by a request\<close>

lemma settings_log_event: "custom_session_factory (log_event e c) = custom_session_factory c"
  by (simp add: custom_session_factory_def log_event_def)

lemma settings_notify:
  "custom_session_factory (notify_response_error m c) = custom_session_factory c"
  by (simp add: custom_session_factory_def notify_response_error_def log_event_def Let_def)

lemma settings_handle_async_request:
  "custom_session_factory (snd (handle_async_request (custom_session_factory c) wire c)) =
     custom_session_factory c"
  unfolding handle_async_request_def
  by (rule attempts_invariant [where P = "\<lambda>c'. custom_session_factory c' = custom_session_factory c"])
     (simp_all add: settings_log_event settings_notify callback_custom)

lemma uncaught_first_attempt:
  assumes "0 < api_retries T" and "wire 0 = Uncaught e"
  shows "handle_async_request T wire c = (Raised e, log_event NetIO c)"
proof -
  have "[0..api_retries T] = 0 # [1..api_retries T]"
    using assms(1) by (simp add: upto_rec1)
  then show ?thesis
    using assms by (simp add: handle_async_request_def after_finally_def finally_clause_def)
qed

lemma get_response_error_value: "fst (get_response_error c) = response_error_message c"
  by (simp add: get_response_error_def log_event_def Let_def)

text \<open>
  The value of \<^verbatim>\<open>predict\<close> is \<^verbatim>\<open>None\<close> whenever it returns, and whenever the transport
  raises, the read of the slot that follows happens with the lock free.
\<close>

lemma predict_value:
  assumes "fst (predict L wire self data c) = Returned v"
  shows "v = PNone"
  using assms
  by (auto simp: predict_def split: prod.splits result.splits if_splits)

lemma predict_unlocked_read:
  assumes "sends L self" and "lock_discipline (events c)"
    and "handle_async_request (custom_session_factory c) wire c = (Raised e, c1)"
  shows "\<not> lock_discipline (events (snd (snd (predict L wire self data c))))"
proof -
  from predict_transport_raises [OF assms(1,3), of data] obtain self1 where
    p: "predict L wire self data c =
      (Raised (RuntimeError (response_error_message c1)), self1, log_event ReadSlot c1)" ..
  have "lock_discipline (events c1)"
    using lock_handle_async_request [OF assms(2), of wire] assms(3) by simp
  then have "lock_run False (events c1 @ [ReadSlot]) = None"
    by (simp add: lock_discipline_def lock_run_append)
  with p show ?thesis
    by (simp add: lock_discipline_def log_event_def)
qed


section \<open>Properties of predict and of the error slot\<close>

text \<open>
  C1. \<^verbatim>\<open>predict\<close> is to return the text of the response. On a connector that is set up and
  a network that answers 200 with the body \<open>[1]\<close>, it prints the text and its value is
  \<^verbatim>\<open>None\<close>: the method has no \<^verbatim>\<open>return\<close> statement.
\<close>

theorem predict_returns_None:
  "predict example_library wire_ok example_plugin (PList [PInt 1, PInt 2]) Plugin_class =
     (Returned PNone,
      example_plugin\<lparr>api_instance_schema := Some (PDict [(''type'', PStr ''object'')])\<rparr>,
      Plugin_class\<lparr>events := [NetIO, Print ''[1]'']\<rparr>)"
  by (simp add: predict_def example_make_requests_ok log_event_def ok_response_def)

text \<open>
  C6. Every read and write of the error slot is to happen while the lock is held. When
  the retries are exhausted, the effects of \<^verbatim>\<open>predict\<close> are a disciplined run of the
  transport (the write inside the lock, dispatches and sleeps outside it) followed by a
  read of the slot with the lock free: \<^verbatim>\<open>predict\<close> reads the class attribute directly and
  not through \<^verbatim>\<open>_get_response_error\<close>.
\<close>

theorem predict_reads_slot_unlocked:
  "events (snd (snd (predict example_library wire_busy example_plugin PNone Plugin_class))) =
     [NetIO, Sleep 1, NetIO, Sleep 2, NetIO, Sleep 4, NetIO, Acquire, WriteSlot, Release, ReadSlot]
   \<and> lock_run False [NetIO, Sleep 1, NetIO, Sleep 2, NetIO, Sleep 4, NetIO,
                     Acquire, WriteSlot, Release] = Some False
   \<and> lock_step False ReadSlot = None
   \<and> \<not> lock_discipline
         (events (snd (snd (predict example_library wire_busy example_plugin PNone Plugin_class))))"
  by (simp add: example_predict_busy lock_discipline_def)

text \<open>
  C7. The error slot belongs to the class: a text written while a request of one instance
  \<open>a\<close> exhausts its retries is what the static getter returns afterwards and what
  \<^verbatim>\<open>predict\<close> on any other instance \<open>b\<close> reports when its own request fails without a
  write; a later write replaces it (the last writer wins).
\<close>

theorem error_slot_shared:
  assumes "0 < cls_api_retries c"
    and "\<forall>k\<in>{0..cls_api_retries c}. retryable_message (custom_session_factory c) (wire_a k) \<noteq> None"
    and "\<forall>k\<in>{0..<cls_api_retries c}. wire_status (wire_a k) \<noteq> Some 429 \<longrightarrow> k < 1024"
    and "retryable_message (custom_session_factory c) (wire_a (cls_api_retries c)) = Some msg"
    and "m = max_retries_message (custom_session_factory c) msg"
    and "sends L a" and "sends L b"
    and "wire_b 0 = Uncaught e"
  shows "\<exists>a1 c1. predict L wire_a a data c = (Raised (RuntimeError m), a1, c1)
           \<and> response_error_message c1 = m
           \<and> fst (get_response_error c1) = m
           \<and> (\<exists>b1 c2. predict L wire_b b data2 c1 = (Raised (RuntimeError m), b1, c2)
                 \<and> response_error_message c2 = m)
           \<and> response_error_message (notify_response_error m2 c1) = m2
           \<and> fst (get_response_error (notify_response_error m2 c1)) = m2"
proof -
  let ?T = "custom_session_factory c"
  from handle_async_request_exhaust [of ?T wire_a msg c] assms(1-5)
  obtain c0 where run: "handle_async_request ?T wire_a c =
      (Raised (RuntimeError m), notify_response_error m c0)"
    by (auto simp: retries_custom callback_custom)
  let ?c1 = "log_event ReadSlot (notify_response_error m c0)"
  from predict_transport_raises [OF assms(6) run, of data]
  obtain a1 where pa: "predict L wire_a a data c = (Raised (RuntimeError m), a1, ?c1)"
    by (auto simp: notify_slot)
  have slot1: "response_error_message ?c1 = m"
    by (simp add: log_event_slot notify_slot)
  have "custom_session_factory (notify_response_error m c0) = ?T"
    using settings_handle_async_request [of c wire_a] run by simp
  then have T1: "custom_session_factory ?c1 = ?T"
    by (simp add: settings_log_event)
  have "handle_async_request (custom_session_factory ?c1) wire_b ?c1 =
      (Raised e, log_event NetIO ?c1)"
    unfolding T1 using assms(1,8) by (intro uncaught_first_attempt) (simp_all add: retries_custom)
  from predict_transport_raises [OF assms(7) this, of data2]
  obtain b1 where pb: "predict L wire_b b data2 ?c1 =
      (Raised (RuntimeError m), b1, log_event ReadSlot (log_event NetIO ?c1))"
    by (auto simp: log_event_slot notify_slot)
  have "response_error_message (log_event ReadSlot (log_event NetIO ?c1)) = m"
    by (simp add: log_event_slot notify_slot)
  with pa pb slot1 show ?thesis
    by (auto simp: get_response_error_value notify_slot)
qed

theorem error_slot_shared_witness:
  "0 < cls_api_retries Plugin_class
   \<and> sends example_library example_plugin \<and> sends example_library plugin_get
   \<and> wire_broken 0 = Uncaught (OtherError ''RemoteProtocolError'')
   \<and> (\<exists>a1 c1. predict example_library wire_busy example_plugin PNone Plugin_class =
         (Raised (RuntimeError
            ''Maximum retries exceeded (3) Response status code: 503 (SERVICE_UNAVAILABLE)''),
          a1, c1)
       \<and> (\<exists>b1 c2. predict example_library wire_broken plugin_get PNone c1 =
         (Raised (RuntimeError
            ''Maximum retries exceeded (3) Response status code: 503 (SERVICE_UNAVAILABLE)''),
          b1, c2)))"
proof -
  have h1: "0 < cls_api_retries Plugin_class"
    by (simp add: Plugin_class_fields)
  have h2: "\<forall>k\<in>{0..cls_api_retries Plugin_class}.
      retryable_message (custom_session_factory Plugin_class) (wire_busy k) \<noteq> None"
    by (simp add: busy_retryable)
  have h3: "\<forall>k\<in>{0..<cls_api_retries Plugin_class}.
      wire_status (wire_busy k) \<noteq> Some 429 \<longrightarrow> k < 1024"
    by (simp add: Plugin_class_fields)
  have h4: "retryable_message (custom_session_factory Plugin_class)
      (wire_busy (cls_api_retries Plugin_class)) =
        Some ''Response status code: 503 (SERVICE_UNAVAILABLE)''"
    by (rule busy_retryable)
  have h5: "''Maximum retries exceeded (3) Response status code: 503 (SERVICE_UNAVAILABLE)'' =
      max_retries_message (custom_session_factory Plugin_class)
        ''Response status code: 503 (SERVICE_UNAVAILABLE)''"
    by (simp add: max_retries_message_def default_transport str_int_3)
  have h8: "wire_broken 0 = Uncaught (OtherError ''RemoteProtocolError'')"
    by (simp add: wire_broken_def)
  from error_slot_shared [of Plugin_class wire_busy
      "''Response status code: 503 (SERVICE_UNAVAILABLE)''"
      "''Maximum retries exceeded (3) Response status code: 503 (SERVICE_UNAVAILABLE)''"
      example_library example_plugin plugin_get wire_broken "OtherError ''RemoteProtocolError''"
      PNone PNone] h1 h2 h3 h4 h5 h8 example_sends plugin_get_sends
  show ?thesis
    by blast
qed

section \<open>Properties of the request builder\<close>

lemma in_keys_iff: "k \<in> fst ` set d \<longleftrightarrow> map_of d k \<noteq> None"
  by (simp add: map_of_eq_None_iff)

lemma resolve_content_type_cases:
  "resolve_content_type content =
     (if map_of content ''application/json'' \<noteq> None then Some ''application/json''
      else if map_of content ''multipart/form-data'' \<noteq> None then Some ''multipart/form-data''
      else if map_of content ''application/x-www-form-urlencoded'' \<noteq> None
      then Some ''application/x-www-form-urlencoded''
      else None)"
  by (simp add: resolve_content_type_def supported_content_types_def in_keys_iff)

lemma get_schema_content_resolved:
  assumes "get_predict_api self = Inr op" and "requestBody op = Some content"
  shows "get_schema_content self =
           (case resolve_content_type content of
              None \<Rightarrow> Inl (NotImplementedError content)
            | Some ct \<Rightarrow> (case map_of content ct of
                           Some s \<Rightarrow> Inr s
                         | None \<Rightarrow> Inl (NotImplementedError content)))"
  using assms
  by (auto simp: get_schema_content_def resolve_content_type_cases split: option.splits)

lemma make_requests_post_schema:
  assumes "get_predict_api self = Inr op" and "py_lower (op_method op) = ''post''"
    and "get_schema_content self = Inr s"
  shows "api_instance_schema (fst (snd (make_requests L wire self c))) = Some s"
  using assms
  by (auto simp: make_requests_def Let_def split: sum.splits prod.splits)

lemma make_requests_post_unsupported:
  assumes "get_predict_api self = Inr op" and "py_lower (op_method op) = ''post''"
    and "get_schema_content self = Inl e"
  shows "make_requests L wire self c = (Raised e, self, c)"
  using assms by (simp add: make_requests_def)

lemma text_plain_predict_api:
  "get_predict_api plugin_text_plain =
     Inr (example_operation\<lparr>requestBody := Some [(''text/plain'', PDict [])]\<rparr>)"
  by (simp add: get_predict_api_def plugin_text_plain_def example_plugin_def example_api_def)

lemma no_enum_predict_api: "get_predict_api plugin_no_enum = Inr operation_no_enum"
  by (simp add: get_predict_api_def plugin_no_enum_def example_plugin_def example_api_def)

lemma no_enum_schema_content:
  "get_schema_content plugin_no_enum = Inr (PDict [(''type'', PStr ''object'')])"
  by (simp add: get_schema_content_def no_enum_predict_api operation_no_enum_def
      example_operation_def)

lemma no_enum_headers:
  "populate_headers (op_parameters operation_no_enum) [] = Inl (TypeError (no_len ''NoneType''))"
  by (simp add: operation_no_enum_def example_operation_def py_lower_header)

lemma no_enum_method: "py_lower (op_method operation_no_enum) = ''post''"
  by (simp add: operation_no_enum_def example_method)


lemma no_body_predict_api:
  "get_predict_api plugin_no_body = Inr (example_operation\<lparr>requestBody := None\<rparr>)"
  by (simp add: get_predict_api_def plugin_no_body_def example_plugin_def example_api_def)

text \<open>
  C8, as amended. For a POST operation that declares a request body, the content type is
  the first of \<open>application/json\<close>, \<open>multipart/form-data\<close>,
  \<open>application/x-www-form-urlencoded\<close> that the content map declares, and the schema
  used (and stored in \<^verbatim>\<open>_api_instance_schema\<close>) is the schema of that type; the builder fails
  with \<^verbatim>\<open>NotImplementedError\<close> exactly when the map declares none of the three, as for a
  body that declares \<open>text/plain\<close> only.
\<close>

theorem content_type_priority:
  assumes "get_predict_api self = Inr op" and "requestBody op = Some content"
    and "py_lower (op_method op) = ''post''"
  shows "(\<forall>ct. resolve_content_type content = Some ct \<longrightarrow>
            (\<exists>s. map_of content ct = Some s \<and> get_schema_content self = Inr s
                 \<and> api_instance_schema (fst (snd (make_requests L wire self c))) = Some s))
       \<and> (resolve_content_type content = None \<longrightarrow>
            get_schema_content self = Inl (NotImplementedError content)
            \<and> make_requests L wire self c = (Raised (NotImplementedError content), self, c))
       \<and> ((\<exists>e. get_schema_content self = Inl e) \<longleftrightarrow>
            (\<forall>ct\<in>set supported_content_types. ct \<notin> fst ` set content))"
proof -
  note gsc = get_schema_content_resolved [OF assms(1,2)]
  have 1: "\<forall>ct. resolve_content_type content = Some ct \<longrightarrow>
            (\<exists>s. map_of content ct = Some s \<and> get_schema_content self = Inr s
                 \<and> api_instance_schema (fst (snd (make_requests L wire self c))) = Some s)"
  proof (intro allI impI)
    fix ct assume r: "resolve_content_type content = Some ct"
    then obtain s where s: "map_of content ct = Some s"
      by (auto simp: resolve_content_type_cases split: if_splits)
    with r gsc have "get_schema_content self = Inr s" by simp
    with s make_requests_post_schema [OF assms(1,3) this]
    show "\<exists>s. map_of content ct = Some s \<and> get_schema_content self = Inr s
                 \<and> api_instance_schema (fst (snd (make_requests L wire self c))) = Some s"
      by simp
  qed
  have 2: "resolve_content_type content = None \<longrightarrow>
            get_schema_content self = Inl (NotImplementedError content)
            \<and> make_requests L wire self c = (Raised (NotImplementedError content), self, c)"
    using gsc make_requests_post_unsupported [OF assms(1,3)] by simp
  have 3: "(\<exists>e. get_schema_content self = Inl e) \<longleftrightarrow>
            (\<forall>ct\<in>set supported_content_types. ct \<notin> fst ` set content)"
    using gsc
    by (auto simp: resolve_content_type_cases supported_content_types_def in_keys_iff
        split: if_splits)
  from 1 2 3 show ?thesis by blast
qed

theorem content_type_priority_witness:
  "resolve_content_type [(''text/plain'', PDict [])] = None
   \<and> get_schema_content plugin_text_plain =
       Inl (NotImplementedError [(''text/plain'', PDict [])])
   \<and> make_requests example_library wire_ok plugin_text_plain Plugin_class =
       (Raised (NotImplementedError [(''text/plain'', PDict [])]), plugin_text_plain,
        Plugin_class)
   \<and> resolve_content_type
        [(''multipart/form-data'', PStr ''m''), (''application/json'', PStr ''j'')] =
       Some ''application/json''"
proof -
  have r: "resolve_content_type [(''text/plain'', PDict [])] = None"
    by (simp add: resolve_content_type_cases)
  have m: "py_lower (op_method (example_operation\<lparr>requestBody :=
      Some [(''text/plain'', PDict [])]\<rparr>)) = ''post''"
    by (simp add: example_method)
  from content_type_priority [OF text_plain_predict_api _ m,
      of "[(''text/plain'', PDict [])]" example_library wire_ok Plugin_class] r
  show ?thesis
    by (simp add: resolve_content_type_cases)
qed


text \<open>
  The claim as stated speaks of every POST operation. One that declares no request body
  declares none of the three types, and the builder does not fail with
  \<^verbatim>\<open>NotImplementedError\<close>: reading \<^verbatim>\<open>requestBody.content\<close> raises an \<^verbatim>\<open>AttributeError\<close>.
\<close>

theorem content_type_counterexample:
  "get_predict_api plugin_no_body = Inr (example_operation\<lparr>requestBody := None\<rparr>)
   \<and> py_lower (op_method (example_operation\<lparr>requestBody := None\<rparr>)) = ''post''
   \<and> requestBody (example_operation\<lparr>requestBody := None\<rparr>) = None
   \<and> get_schema_content plugin_no_body = Inl (AttributeError (no_attribute PNone ''content''))
   \<and> make_requests example_library wire_ok plugin_no_body Plugin_class =
       (Raised (AttributeError (no_attribute PNone ''content'')), plugin_no_body, Plugin_class)"
  by (simp add: no_body_predict_api example_method get_schema_content_def make_requests_def)

text \<open>
  C9. A required header whose schema has an enumeration gets the first entry as its
  value. A required header whose schema has no enumeration is to be left unset, the
  request being built all the same; there \<^verbatim>\<open>parameter.schema_.enum\<close> is \<^verbatim>\<open>None\<close>, \<^verbatim>\<open>len\<close>
  raises a \<^verbatim>\<open>TypeError\<close>, and \<^verbatim>\<open>predict\<close> ends with it before anything is sent.
\<close>

theorem header_without_enum_raises:
  "populate_headers (op_parameters example_operation) [] = Inr [(''foo'', PStr ''bar'')]
   \<and> populate_headers (op_parameters operation_no_enum) [] =
       Inl (TypeError (no_len ''NoneType''))
   \<and> predict example_library wire_ok plugin_no_enum PNone Plugin_class =
       (Raised (TypeError (no_len ''NoneType'')),
        plugin_no_enum\<lparr>api_instance_schema := Some (PDict [(''type'', PStr ''object'')])\<rparr>,
        Plugin_class)"
  by (simp add: example_populate_headers no_enum_headers predict_def make_requests_def
      no_enum_predict_api no_enum_schema_content no_enum_method Let_def)

section \<open>Properties of setup\<close>

lemma tag_example_paths: "tag_first_api example_paths = Inr tagged_paths"
  by (simp add: tag_first_api_def tag_first_http_def example_paths_def tagged_paths_def)

lemma plugin_without_info_fields:
  "plugin_without_info =
     \<lparr>is_setup_completed = False, api_instance = None, api_instance_schema = None,
      api_schema = schema_without_info, api_config = example_config\<rparr>"
  by (simp add: plugin_without_info_def Plugin_def schema_without_info_def example_config_def)

lemma setup_without_info:
  "Plugin_setup example_library plugin_without_info =
     (plugin_without_info\<lparr>api_schema := [(''openapi'', PStr ''3.0.3''), (''paths'', tagged_paths)]\<rparr>,
      False, ''info: field required'')"
  by (simp add: Plugin_setup_def perform_validation_def example_library_fields
      plugin_without_info_fields Let_def)
     (simp add: schema_without_info_def tag_example_paths example_library_def)

lemma setup_failure_cases:
  assumes "Plugin_setup L self = (self1, False, msg)"
  shows "self1 = self
       \<or> (\<exists>p p1. map_of (api_schema self) ''paths'' = Some p \<and> tag_first_api p = Inr p1 \<and>
             fst (perform_validation L self) \<and>
             (self1 = self\<lparr>api_schema := AList.update ''paths'' p1 (api_schema self)\<rparr> \<or>
              (\<exists>api1. self1 = self\<lparr>api_schema := AList.update ''paths'' p1 (api_schema self),
                                    api_instance := Some api1\<rparr>)))"
  using assms
  by (auto simp: Plugin_setup_def Let_def split: prod.splits bool.splits option.splits
      sum.splits if_splits)

lemma config_credential_section:
  assumes "authentication_section config = Some d"
  shows "config_credential config key = Inr (credential_or_empty d key)"
  using assms
  by (auto simp: authentication_section_def config_credential_def credential_or_empty_def
      split: option.splits pyval.splits)

lemma authenticate_scheme_registered:
  assumes "authentication_section config = Some d"
    and "is_http sch \<longrightarrow> scheme sch \<noteq> None"
  shows "authenticate_scheme L config (k, sch) api =
           ((case registered_credential L d sch of
               None \<Rightarrow> api
             | Some cr \<Rightarrow> authenticate k cr api), None)"
  using assms
  by (auto simp: authenticate_scheme_def registered_credential_def is_http_def has_scheme_def
      config_credential_section split: option.splits)

lemma authenticate_fields:
  "securitySchemes (authenticate k cr api) = securitySchemes api"
  "predict_api (authenticate k cr api) = predict_api api"
  "map_of (security (authenticate k cr api)) = (map_of (security api))(k \<mapsto> cr)"
  by (simp_all add: authenticate_def update_conv')

lemma authenticate_schemes_registered:
  assumes "authentication_section config = Some d"
    and "\<forall>(k, s)\<in>set xs. is_http s \<longrightarrow> scheme s \<noteq> None"
    and "distinct (map fst xs)"
  shows "\<exists>api1. authenticate_schemes L config xs api = (api1, None)
           \<and> securitySchemes api1 = securitySchemes api
           \<and> predict_api api1 = predict_api api
           \<and> (\<forall>k. map_of (security api1) k =
                 (case map_of xs k of
                    None \<Rightarrow> map_of (security api) k
                  | Some s \<Rightarrow> (case registered_credential L d s of
                                None \<Rightarrow> map_of (security api) k
                              | Some cr \<Rightarrow> Some cr)))"
  using assms(2,3)
proof (induction xs arbitrary: api)
  case Nil
  then show ?case by simp
next
  case (Cons x xs)
  obtain k s where x: "x = (k, s)" by (cases x)
  let ?api = "case registered_credential L d s of None \<Rightarrow> api | Some cr \<Rightarrow> authenticate k cr api"
  have step: "authenticate_scheme L config (k, s) api = (?api, None)"
    using Cons.prems(1) x by (intro authenticate_scheme_registered [OF assms(1)]) simp
  have fresh: "map_of xs k = None"
    using Cons.prems(2) x by (simp add: map_of_eq_None_iff)
  from Cons.IH [of ?api] Cons.prems obtain api1 where
    run: "authenticate_schemes L config xs ?api = (api1, None)"
    and f1: "securitySchemes api1 = securitySchemes ?api"
    and f2: "predict_api api1 = predict_api ?api"
    and f3: "\<forall>k'. map_of (security api1) k' =
                 (case map_of xs k' of
                    None \<Rightarrow> map_of (security ?api) k'
                  | Some s' \<Rightarrow> (case registered_credential L d s' of
                                None \<Rightarrow> map_of (security ?api) k'
                              | Some cr \<Rightarrow> Some cr))"
    by auto
  have "authenticate_schemes L config (x # xs) api = (api1, None)"
    using step run x by simp
  moreover have "securitySchemes api1 = securitySchemes api" "predict_api api1 = predict_api api"
    using f1 f2 by (auto simp: authenticate_fields split: option.splits)
  moreover have "\<forall>k'. map_of (security api1) k' =
                 (case map_of (x # xs) k' of
                    None \<Rightarrow> map_of (security api) k'
                  | Some s' \<Rightarrow> (case registered_credential L d s' of
                                None \<Rightarrow> map_of (security api) k'
                              | Some cr \<Rightarrow> Some cr))"
    using f3 fresh x
    by (auto simp: authenticate_fields split: option.splits)
  ultimately show ?case by blast
qed

lemma setup_succeeds:
  assumes "validate L (api_config self) (api_schema self) = None"
    and "map_of (api_schema self) ''paths'' = Some p"
    and "tag_first_api p = Inr p1"
    and "loads L (AList.update ''paths'' p1 (api_schema self)) = Inr api"
    and "setup_api_authentication L (api_config self) api = (api1, None)"
  shows "Plugin_setup L self =
           (self\<lparr>api_schema := AList.update ''paths'' p1 (api_schema self),
                 api_instance := Some api1, is_setup_completed := True\<rparr>, True, [])"
  using assms by (simp add: Plugin_setup_def perform_validation_def Let_def)

lemma py_lower_words:
  "py_lower ''http'' = ''http''" "py_lower ''bearer'' = ''bearer''"
  "py_lower ''basic'' = ''basic''" "py_lower ''apiKey'' = ''apikey''"
  by (simp_all add: py_lower_def lower_char_def)

lemma example_section:
  "authentication_section example_config = Some [(''token'', PStr ''secret'')]"
  by (simp add: authentication_section_def example_config_def)

lemma example_auth_run:
  "setup_api_authentication example_library example_config example_api =
     (authenticated_api, None)"
  by (simp add: setup_api_authentication_def example_api_def authenticate_scheme_def
      py_lower_words config_credential_def example_config_def authenticate_def
      authenticated_api_def)


lemma tag_first_api_first_method:
  "tag_first_api (PDict ((path, PDict ((http, PDict d) # others)) # paths)) =
     Inr (PDict ((path, PDict ((http,
            PDict (AList.update ''operationId'' (PStr ''predict_api'') d)) # others)) # paths))"
  by (simp add: tag_first_api_def tag_first_http_def)

lemma tag_first_api_nothing:
  "tag_first_api (PDict []) = Inr (PDict [])"
  "tag_first_api (PDict ((path, PDict []) # paths)) = Inr (PDict ((path, PDict []) # paths))"
  by (simp_all add: tag_first_api_def tag_first_http_def)

lemma setup_failure_later:
  assumes "Plugin_setup L self = (self1, False, msg)"
    and "fst (perform_validation L self)"
    and "map_of (api_schema self) ''paths'' = Some p" and "tag_first_api p = Inr p1"
  shows "api_schema self1 = AList.update ''paths'' p1 (api_schema self)
       \<and> (\<forall>e. loads L (AList.update ''paths'' p1 (api_schema self)) = Inl e \<longrightarrow>
             api_instance self1 = api_instance self)
       \<and> (\<forall>api. loads L (AList.update ''paths'' p1 (api_schema self)) = Inr api \<longrightarrow>
             api_instance self1 =
               Some (fst (setup_api_authentication L (api_config self) api)))"
  using assms
  by (auto simp: Plugin_setup_def Let_def split: prod.splits bool.splits sum.splits
      option.splits)

lemma authentication_registers:
  assumes sec: "authentication_section config = Some d"
    and sch: "\<forall>(k, s)\<in>set (securitySchemes api). is_http s \<longrightarrow> scheme s \<noteq> None"
    and dist: "distinct (map fst (securitySchemes api))"
  shows "\<exists>api1. setup_api_authentication L config api = (api1, None)
          \<and> securitySchemes api1 = securitySchemes api
          \<and> predict_api api1 = predict_api api
          \<and> (\<forall>(k, s)\<in>set (securitySchemes api).
                (is_http s \<and> has_scheme s ''bearer'' \<longrightarrow>
                   map_of (security api1) k =
                     Some (Token (py_str (repr L) (credential_or_empty d ''token''))))
              \<and> (is_http s \<and> \<not> has_scheme s ''bearer'' \<and> has_scheme s ''basic'' \<longrightarrow>
                   map_of (security api1) k =
                     Some (UserPass (credential_or_empty d ''username'')
                             (credential_or_empty d ''password'')))
              \<and> (\<not> is_http s \<or> (\<not> has_scheme s ''bearer'' \<and> \<not> has_scheme s ''basic'') \<longrightarrow>
                   map_of (security api1) k = map_of (security api) k))
          \<and> (\<forall>k. k \<notin> fst ` set (securitySchemes api) \<longrightarrow>
                map_of (security api1) k = map_of (security api) k)"
proof -
  from authenticate_schemes_registered [OF sec sch dist, of L api]
  obtain api1 where run: "setup_api_authentication L config api = (api1, None)"
    and f1: "securitySchemes api1 = securitySchemes api"
    and f2: "predict_api api1 = predict_api api"
    and f3: "\<And>k. map_of (security api1) k =
               (case map_of (securitySchemes api) k of
                  None \<Rightarrow> map_of (security api) k
                | Some s \<Rightarrow> (case registered_credential L d s of
                              None \<Rightarrow> map_of (security api) k
                            | Some cr \<Rightarrow> Some cr))"
    by (auto simp: setup_api_authentication_def)
  have entries: "\<And>k s. (k, s) \<in> set (securitySchemes api) \<Longrightarrow>
      map_of (securitySchemes api) k = Some s"
    using dist by simp
  have "\<forall>(k, s)\<in>set (securitySchemes api).
              (is_http s \<and> has_scheme s ''bearer'' \<longrightarrow>
                 map_of (security api1) k =
                   Some (Token (py_str (repr L) (credential_or_empty d ''token''))))
            \<and> (is_http s \<and> \<not> has_scheme s ''bearer'' \<and> has_scheme s ''basic'' \<longrightarrow>
                 map_of (security api1) k =
                   Some (UserPass (credential_or_empty d ''username'')
                           (credential_or_empty d ''password'')))
            \<and> (\<not> is_http s \<or> (\<not> has_scheme s ''bearer'' \<and> \<not> has_scheme s ''basic'') \<longrightarrow>
                 map_of (security api1) k = map_of (security api) k)"
    using f3 entries by (auto simp: registered_credential_def)
  moreover have "\<forall>k. k \<notin> fst ` set (securitySchemes api) \<longrightarrow>
              map_of (security api1) k = map_of (security api) k"
  proof (intro allI impI)
    fix k assume "k \<notin> fst ` set (securitySchemes api)"
    then have "map_of (securitySchemes api) k = None"
      by (simp add: map_of_eq_None_iff)
    with f3 [of k] show "map_of (security api1) k = map_of (security api) k"
      by simp
  qed
  ultimately show "\<exists>api1. setup_api_authentication L config api = (api1, None)
        \<and> securitySchemes api1 = securitySchemes api
        \<and> predict_api api1 = predict_api api
        \<and> (\<forall>(k, s)\<in>set (securitySchemes api).
              (is_http s \<and> has_scheme s ''bearer'' \<longrightarrow>
                 map_of (security api1) k =
                   Some (Token (py_str (repr L) (credential_or_empty d ''token''))))
            \<and> (is_http s \<and> \<not> has_scheme s ''bearer'' \<and> has_scheme s ''basic'' \<longrightarrow>
                 map_of (security api1) k =
                   Some (UserPass (credential_or_empty d ''username'')
                           (credential_or_empty d ''password'')))
            \<and> (\<not> is_http s \<or> (\<not> has_scheme s ''bearer'' \<and> \<not> has_scheme s ''basic'') \<longrightarrow>
                 map_of (security api1) k = map_of (security api) k))
        \<and> (\<forall>k. k \<notin> fst ` set (securitySchemes api) \<longrightarrow>
              map_of (security api1) k = map_of (security api) k)"
    using run f1 f2 by blast
qed

text \<open>
  C5, as amended. When \<^verbatim>\<open>setup\<close> fails, the setup-completed flag, the configuration and
  the schema slot of the instance are what they were, and the stored API schema differs
  at most under the key \<open>paths\<close>. When the failure comes from the validation, from a
  schema without \<open>paths\<close>, or from the search for the first operation, nothing at all
  has changed. When it comes later, the stored paths are the tagged ones: the first method
  of the first path carries the \<open>operationId\<close> if there is a first path with a first
  method, and the paths are as before if there is none; the API instance slot is as before
  when the loader fails, and holds the loaded instance when the authentication fails.
\<close>

theorem setup_failure_state:
  assumes "Plugin_setup L self = (self1, False, msg)"
  shows "is_setup_completed self1 = is_setup_completed self
       \<and> api_config self1 = api_config self
       \<and> api_instance_schema self1 = api_instance_schema self
       \<and> (\<forall>k. k \<noteq> ''paths'' \<longrightarrow> map_of (api_schema self1) k = map_of (api_schema self) k)
       \<and> (\<not> fst (perform_validation L self) \<longrightarrow> self1 = self)
       \<and> (map_of (api_schema self) ''paths'' = None \<longrightarrow> self1 = self)
       \<and> (\<forall>p e. map_of (api_schema self) ''paths'' = Some p \<and> tag_first_api p = Inl e
             \<longrightarrow> self1 = self)
       \<and> (\<forall>p p1. fst (perform_validation L self)
               \<and> map_of (api_schema self) ''paths'' = Some p \<and> tag_first_api p = Inr p1
             \<longrightarrow> api_schema self1 = AList.update ''paths'' p1 (api_schema self)
               \<and> (\<forall>e. loads L (AList.update ''paths'' p1 (api_schema self)) = Inl e \<longrightarrow>
                     api_instance self1 = api_instance self)
               \<and> (\<forall>api. loads L (AList.update ''paths'' p1 (api_schema self)) = Inr api \<longrightarrow>
                     api_instance self1 =
                       Some (fst (setup_api_authentication L (api_config self) api))))
       \<and> (\<forall>path http d others paths.
             tag_first_api (PDict ((path, PDict ((http, PDict d) # others)) # paths)) =
               Inr (PDict ((path, PDict ((http,
                      PDict (AList.update ''operationId'' (PStr ''predict_api'') d))
                    # others)) # paths)))
       \<and> tag_first_api (PDict []) = Inr (PDict [])
       \<and> (\<forall>path paths.
             tag_first_api (PDict ((path, PDict []) # paths)) =
               Inr (PDict ((path, PDict []) # paths)))"
proof -
  have early: "is_setup_completed self1 = is_setup_completed self
       \<and> api_config self1 = api_config self
       \<and> api_instance_schema self1 = api_instance_schema self
       \<and> (\<forall>k. k \<noteq> ''paths'' \<longrightarrow> map_of (api_schema self1) k = map_of (api_schema self) k)
       \<and> (\<not> fst (perform_validation L self) \<longrightarrow> self1 = self)
       \<and> (map_of (api_schema self) ''paths'' = None \<longrightarrow> self1 = self)
       \<and> (\<forall>p e. map_of (api_schema self) ''paths'' = Some p \<and> tag_first_api p = Inl e
             \<longrightarrow> self1 = self)"
    using setup_failure_cases [OF assms]
    by (auto simp: update_conv')
  have later: "\<forall>p p1. fst (perform_validation L self)
               \<and> map_of (api_schema self) ''paths'' = Some p \<and> tag_first_api p = Inr p1
             \<longrightarrow> api_schema self1 = AList.update ''paths'' p1 (api_schema self)
               \<and> (\<forall>e. loads L (AList.update ''paths'' p1 (api_schema self)) = Inl e \<longrightarrow>
                     api_instance self1 = api_instance self)
               \<and> (\<forall>api. loads L (AList.update ''paths'' p1 (api_schema self)) = Inr api \<longrightarrow>
                     api_instance self1 =
                       Some (fst (setup_api_authentication L (api_config self) api)))"
    using setup_failure_later [OF assms] by blast
  have tags: "\<forall>path http d others paths.
             tag_first_api (PDict ((path, PDict ((http, PDict d) # others)) # paths)) =
               Inr (PDict ((path, PDict ((http,
                      PDict (AList.update ''operationId'' (PStr ''predict_api'') d))
                    # others)) # paths))"
    "tag_first_api (PDict []) = Inr (PDict [])"
    "\<forall>path paths.
             tag_first_api (PDict ((path, PDict []) # paths)) =
               Inr (PDict ((path, PDict []) # paths))"
    by (simp_all only: tag_first_api_first_method tag_first_api_nothing simp_thms)
  show ?thesis
    using early later tags
    apply (elim conjE)
    apply (intro conjI)
    apply assumption+
    done
qed

theorem setup_failure_state_witness:
  "Plugin_setup example_library plugin_without_info =
     (plugin_without_info\<lparr>api_schema := [(''openapi'', PStr ''3.0.3''), (''paths'', tagged_paths)]\<rparr>,
      False, ''info: field required'')
   \<and> is_setup_completed
        (plugin_without_info\<lparr>api_schema := [(''openapi'', PStr ''3.0.3''), (''paths'', tagged_paths)]\<rparr>)
       = is_setup_completed plugin_without_info
   \<and> api_config
        (plugin_without_info\<lparr>api_schema := [(''openapi'', PStr ''3.0.3''), (''paths'', tagged_paths)]\<rparr>)
       = api_config plugin_without_info"
  using setup_failure_state [OF setup_without_info, THEN conjunct1]
    setup_failure_state [OF setup_without_info, THEN conjunct2, THEN conjunct1]
    setup_without_info
  by simp

text \<open>
  The claim as stated fails on a contract without an \<open>info\<close> section: the validation
  accepts the configuration, the first operation gets its \<open>operationId\<close>, the loader
  rejects the document, and the stored schema is not the one before the call.
\<close>

theorem setup_failure_counterexample:
  "snd (Plugin_setup example_library plugin_without_info) = (False, ''info: field required'')
   \<and> api_schema (fst (Plugin_setup example_library plugin_without_info)) \<noteq>
       api_schema plugin_without_info"
  by (simp add: setup_without_info)
     (simp add: plugin_without_info_fields schema_without_info_def example_paths_def
       tagged_paths_def)

text \<open>
  C10. With an \<open>authentication\<close> section that is absent or a dict,
  \<^verbatim>\<open>_setup_api_authentication\<close> raises nothing and handles every entry of
  \<open>securitySchemes\<close>: an \<open>http\<close> entry with the scheme \<open>bearer\<close> gets the token of
  the configuration registered under its name, one with the scheme \<open>basic\<close> the pair of
  username and password, each value being the empty string when the configuration has
  none; every other entry, and every name that is no entry, keeps what was registered
  before. \<^verbatim>\<open>setup\<close>, once the validation, the tagging and the loader have succeeded, succeeds
  and leaves in the API instance slot the loaded instance with exactly these
  registrations; without any entry nothing is registered and \<^verbatim>\<open>setup\<close> succeeds.
\<close>

theorem authentication_configured:
  "(authentication_section config = Some d
      \<and> (\<forall>(k, s)\<in>set (securitySchemes api). is_http s \<longrightarrow> scheme s \<noteq> None)
      \<and> distinct (map fst (securitySchemes api))
    \<longrightarrow> (\<exists>api1. setup_api_authentication L config api = (api1, None)
          \<and> securitySchemes api1 = securitySchemes api
          \<and> predict_api api1 = predict_api api
          \<and> (\<forall>(k, s)\<in>set (securitySchemes api).
                (is_http s \<and> has_scheme s ''bearer'' \<longrightarrow>
                   map_of (security api1) k =
                     Some (Token (py_str (repr L) (credential_or_empty d ''token''))))
              \<and> (is_http s \<and> \<not> has_scheme s ''bearer'' \<and> has_scheme s ''basic'' \<longrightarrow>
                   map_of (security api1) k =
                     Some (UserPass (credential_or_empty d ''username'')
                             (credential_or_empty d ''password'')))
              \<and> (\<not> is_http s \<or> (\<not> has_scheme s ''bearer'' \<and> \<not> has_scheme s ''basic'') \<longrightarrow>
                   map_of (security api1) k = map_of (security api) k))
          \<and> (\<forall>k. k \<notin> fst ` set (securitySchemes api) \<longrightarrow>
                map_of (security api1) k = map_of (security api) k)))
   \<and> (map_of config ''authentication'' = None \<longrightarrow> authentication_section config = Some [])
   \<and> (map_of d key = None \<longrightarrow> credential_or_empty d key = PStr [])
   \<and> py_str (repr L) (PStr []) = []
   \<and> (securitySchemes api = [] \<longrightarrow> setup_api_authentication L config api = (api, None))
   \<and> (securitySchemes api = []
        \<and> validate L (api_config self) (api_schema self) = None
        \<and> map_of (api_schema self) ''paths'' = Some p
        \<and> tag_first_api p = Inr p1
        \<and> loads L (AList.update ''paths'' p1 (api_schema self)) = Inr api
      \<longrightarrow> Plugin_setup L self =
            (self\<lparr>api_schema := AList.update ''paths'' p1 (api_schema self),
                  api_instance := Some api, is_setup_completed := True\<rparr>, True, []))
   \<and> (authentication_section (api_config self) = Some d
      \<and> (\<forall>(k, s)\<in>set (securitySchemes api). is_http s \<longrightarrow> scheme s \<noteq> None)
      \<and> distinct (map fst (securitySchemes api))
      \<and> validate L (api_config self) (api_schema self) = None
      \<and> map_of (api_schema self) ''paths'' = Some p
      \<and> tag_first_api p = Inr p1
      \<and> loads L (AList.update ''paths'' p1 (api_schema self)) = Inr api
    \<longrightarrow> (\<exists>api1. Plugin_setup L self =
            (self\<lparr>api_schema := AList.update ''paths'' p1 (api_schema self),
                  api_instance := Some api1, is_setup_completed := True\<rparr>, True, [])
          \<and> securitySchemes api1 = securitySchemes api
          \<and> predict_api api1 = predict_api api
          \<and> (\<forall>(k, s)\<in>set (securitySchemes api).
                (is_http s \<and> has_scheme s ''bearer'' \<longrightarrow>
                   map_of (security api1) k =
                     Some (Token (py_str (repr L) (credential_or_empty d ''token''))))
              \<and> (is_http s \<and> \<not> has_scheme s ''bearer'' \<and> has_scheme s ''basic'' \<longrightarrow>
                   map_of (security api1) k =
                     Some (UserPass (credential_or_empty d ''username'')
                             (credential_or_empty d ''password'')))
              \<and> (\<not> is_http s \<or> (\<not> has_scheme s ''bearer'' \<and> \<not> has_scheme s ''basic'') \<longrightarrow>
                   map_of (security api1) k = map_of (security api) k))
          \<and> (\<forall>k. k \<notin> fst ` set (securitySchemes api) \<longrightarrow>
                map_of (security api1) k = map_of (security api) k)))"
proof -
  have A: "authentication_section config = Some d
      \<and> (\<forall>(k, s)\<in>set (securitySchemes api). is_http s \<longrightarrow> scheme s \<noteq> None)
      \<and> distinct (map fst (securitySchemes api))
    \<longrightarrow> (\<exists>api1. setup_api_authentication L config api = (api1, None)
          \<and> securitySchemes api1 = securitySchemes api
          \<and> predict_api api1 = predict_api api
          \<and> (\<forall>(k, s)\<in>set (securitySchemes api).
                (is_http s \<and> has_scheme s ''bearer'' \<longrightarrow>
                   map_of (security api1) k =
                     Some (Token (py_str (repr L) (credential_or_empty d ''token''))))
              \<and> (is_http s \<and> \<not> has_scheme s ''bearer'' \<and> has_scheme s ''basic'' \<longrightarrow>
                   map_of (security api1) k =
                     Some (UserPass (credential_or_empty d ''username'')
                             (credential_or_empty d ''password'')))
              \<and> (\<not> is_http s \<or> (\<not> has_scheme s ''bearer'' \<and> \<not> has_scheme s ''basic'') \<longrightarrow>
                   map_of (security api1) k = map_of (security api) k))
          \<and> (\<forall>k. k \<notin> fst ` set (securitySchemes api) \<longrightarrow>
                map_of (security api1) k = map_of (security api) k))"
    using authentication_registers [of config d api L] by blast
  have B: "map_of config ''authentication'' = None \<longrightarrow> authentication_section config = Some []"
    by (simp add: authentication_section_def)
  have C: "map_of d key = None \<longrightarrow> credential_or_empty d key = PStr []"
    by (simp add: credential_or_empty_def)
  have D: "py_str (repr L) (PStr []) = []"
    by simp
  have E: "securitySchemes api = [] \<longrightarrow> setup_api_authentication L config api = (api, None)"
    by (simp add: setup_api_authentication_def)
  have F: "securitySchemes api = []
        \<and> validate L (api_config self) (api_schema self) = None
        \<and> map_of (api_schema self) ''paths'' = Some p
        \<and> tag_first_api p = Inr p1
        \<and> loads L (AList.update ''paths'' p1 (api_schema self)) = Inr api
      \<longrightarrow> Plugin_setup L self =
            (self\<lparr>api_schema := AList.update ''paths'' p1 (api_schema self),
                  api_instance := Some api, is_setup_completed := True\<rparr>, True, [])"
    using setup_succeeds [of L self p p1 api api]
    by (simp add: setup_api_authentication_def)
  have G: "authentication_section (api_config self) = Some d
      \<and> (\<forall>(k, s)\<in>set (securitySchemes api). is_http s \<longrightarrow> scheme s \<noteq> None)
      \<and> distinct (map fst (securitySchemes api))
      \<and> validate L (api_config self) (api_schema self) = None
      \<and> map_of (api_schema self) ''paths'' = Some p
      \<and> tag_first_api p = Inr p1
      \<and> loads L (AList.update ''paths'' p1 (api_schema self)) = Inr api
    \<longrightarrow> (\<exists>api1. Plugin_setup L self =
            (self\<lparr>api_schema := AList.update ''paths'' p1 (api_schema self),
                  api_instance := Some api1, is_setup_completed := True\<rparr>, True, [])
          \<and> securitySchemes api1 = securitySchemes api
          \<and> predict_api api1 = predict_api api
          \<and> (\<forall>(k, s)\<in>set (securitySchemes api).
                (is_http s \<and> has_scheme s ''bearer'' \<longrightarrow>
                   map_of (security api1) k =
                     Some (Token (py_str (repr L) (credential_or_empty d ''token''))))
              \<and> (is_http s \<and> \<not> has_scheme s ''bearer'' \<and> has_scheme s ''basic'' \<longrightarrow>
                   map_of (security api1) k =
                     Some (UserPass (credential_or_empty d ''username'')
                             (credential_or_empty d ''password'')))
              \<and> (\<not> is_http s \<or> (\<not> has_scheme s ''bearer'' \<and> \<not> has_scheme s ''basic'') \<longrightarrow>
                   map_of (security api1) k = map_of (security api) k))
          \<and> (\<forall>k. k \<notin> fst ` set (securitySchemes api) \<longrightarrow>
                map_of (security api1) k = map_of (security api) k))"
  proof (intro impI, elim conjE)
    assume sec: "authentication_section (api_config self) = Some d"
      and sch: "\<forall>(k, s)\<in>set (securitySchemes api). is_http s \<longrightarrow> scheme s \<noteq> None"
      and dist: "distinct (map fst (securitySchemes api))"
      and v: "validate L (api_config self) (api_schema self) = None"
      and p: "map_of (api_schema self) ''paths'' = Some p"
      and t: "tag_first_api p = Inr p1"
      and l: "loads L (AList.update ''paths'' p1 (api_schema self)) = Inr api"
    from authentication_registers [OF sec sch dist, of L]
    obtain api1 where run: "setup_api_authentication L (api_config self) api = (api1, None)"
      and rest: "securitySchemes api1 = securitySchemes api
          \<and> predict_api api1 = predict_api api
          \<and> (\<forall>(k, s)\<in>set (securitySchemes api).
                (is_http s \<and> has_scheme s ''bearer'' \<longrightarrow>
                   map_of (security api1) k =
                     Some (Token (py_str (repr L) (credential_or_empty d ''token''))))
              \<and> (is_http s \<and> \<not> has_scheme s ''bearer'' \<and> has_scheme s ''basic'' \<longrightarrow>
                   map_of (security api1) k =
                     Some (UserPass (credential_or_empty d ''username'')
                             (credential_or_empty d ''password'')))
              \<and> (\<not> is_http s \<or> (\<not> has_scheme s ''bearer'' \<and> \<not> has_scheme s ''basic'') \<longrightarrow>
                   map_of (security api1) k = map_of (security api) k))
          \<and> (\<forall>k. k \<notin> fst ` set (securitySchemes api) \<longrightarrow>
                map_of (security api1) k = map_of (security api) k)"
      by (elim exE conjE) (rule that, assumption, intro conjI)
    show "\<exists>api1. Plugin_setup L self =
            (self\<lparr>api_schema := AList.update ''paths'' p1 (api_schema self),
                  api_instance := Some api1, is_setup_completed := True\<rparr>, True, [])
          \<and> securitySchemes api1 = securitySchemes api
          \<and> predict_api api1 = predict_api api
          \<and> (\<forall>(k, s)\<in>set (securitySchemes api).
                (is_http s \<and> has_scheme s ''bearer'' \<longrightarrow>
                   map_of (security api1) k =
                     Some (Token (py_str (repr L) (credential_or_empty d ''token''))))
              \<and> (is_http s \<and> \<not> has_scheme s ''bearer'' \<and> has_scheme s ''basic'' \<longrightarrow>
                   map_of (security api1) k =
                     Some (UserPass (credential_or_empty d ''username'')
                             (credential_or_empty d ''password'')))
              \<and> (\<not> is_http s \<or> (\<not> has_scheme s ''bearer'' \<and> \<not> has_scheme s ''basic'') \<longrightarrow>
                   map_of (security api1) k = map_of (security api) k))
          \<and> (\<forall>k. k \<notin> fst ` set (securitySchemes api) \<longrightarrow>
                map_of (security api1) k = map_of (security api) k)"
      using setup_succeeds [OF v p t l run] rest
      apply (elim conjE)
      apply (intro exI [of _ api1] conjI)
      apply assumption+
      done
  qed
  from A B C D E F G show ?thesis
    by (intro conjI)
qed

lemma fresh_plugin_fields:
  "fresh_plugin =
     \<lparr>is_setup_completed = False, api_instance = None, api_instance_schema = None,
      api_schema = example_schema, api_config = example_config\<rparr>"
  by (simp add: fresh_plugin_def Plugin_def example_schema_def example_config_def)

lemma fresh_plugin_loads:
  "loads example_library (AList.update ''paths'' tagged_paths (api_schema fresh_plugin)) =
     Inr example_api"
  by (simp add: fresh_plugin_fields example_schema_def example_library_def)

theorem authentication_configured_witness:
  "authentication_section (api_config fresh_plugin) = Some [(''token'', PStr ''secret'')]
   \<and> distinct (map fst (securitySchemes example_api))
   \<and> Plugin_setup example_library fresh_plugin =
       (fresh_plugin\<lparr>api_schema := AList.update ''paths'' tagged_paths (api_schema fresh_plugin),
                     api_instance := Some authenticated_api, is_setup_completed := True\<rparr>,
        True, [])
   \<and> map_of (security authenticated_api) ''bearerAuth'' = Some (Token ''secret'')
   \<and> map_of (security authenticated_api) ''basicAuth'' = Some (UserPass (PStr []) (PStr []))
   \<and> map_of (security authenticated_api) ''keyAuth'' = None"
proof -
  have h1: "authentication_section (api_config fresh_plugin) = Some [(''token'', PStr ''secret'')]"
    by (simp add: fresh_plugin_fields example_section)
  have h2: "\<forall>(k, s)\<in>set (securitySchemes example_api). is_http s \<longrightarrow> scheme s \<noteq> None"
    by (simp add: example_api_def is_http_def py_lower_words)
  have h3: "distinct (map fst (securitySchemes example_api))"
    by (simp add: example_api_def)
  have h4: "validate example_library (api_config fresh_plugin) (api_schema fresh_plugin) = None"
    by (rule example_library_fields)
  have h5: "map_of (api_schema fresh_plugin) ''paths'' = Some example_paths"
    by (simp add: fresh_plugin_fields example_schema_def)
  note h6 = tag_example_paths
  note h7 = fresh_plugin_loads
  note configured = authentication_configured [of "api_config fresh_plugin"
      "[(''token'', PStr ''secret'')]" example_api example_library "''token''" fresh_plugin
      example_paths tagged_paths,
      THEN conjunct2, THEN conjunct2, THEN conjunct2, THEN conjunct2, THEN conjunct2,
      THEN conjunct2, THEN mp,
      OF conjI [OF h1 conjI [OF h2 conjI [OF h3 conjI [OF h4 conjI [OF h5 conjI [OF h6 h7]]]]]]]
  then obtain api1 where
    run: "Plugin_setup example_library fresh_plugin =
       (fresh_plugin\<lparr>api_schema := AList.update ''paths'' tagged_paths (api_schema fresh_plugin),
                     api_instance := Some api1, is_setup_completed := True\<rparr>, True, [])"
    and reg: "\<forall>(k, s)\<in>set (securitySchemes example_api).
        (is_http s \<and> has_scheme s ''bearer'' \<longrightarrow>
           map_of (security api1) k =
             Some (Token (py_str (repr example_library)
               (credential_or_empty [(''token'', PStr ''secret'')] ''token''))))
      \<and> (is_http s \<and> \<not> has_scheme s ''bearer'' \<and> has_scheme s ''basic'' \<longrightarrow>
           map_of (security api1) k =
             Some (UserPass (credential_or_empty [(''token'', PStr ''secret'')] ''username'')
                     (credential_or_empty [(''token'', PStr ''secret'')] ''password'')))
      \<and> (\<not> is_http s \<or> (\<not> has_scheme s ''bearer'' \<and> \<not> has_scheme s ''basic'') \<longrightarrow>
           map_of (security api1) k = map_of (security example_api) k)"
    by (elim exE conjE) (rule that)
  have direct: "Plugin_setup example_library fresh_plugin =
       (fresh_plugin\<lparr>api_schema := AList.update ''paths'' tagged_paths (api_schema fresh_plugin),
                     api_instance := Some authenticated_api, is_setup_completed := True\<rparr>,
        True, [])"
    using setup_succeeds [OF h4 h5 h6 h7, of authenticated_api]
    by (simp add: fresh_plugin_fields example_auth_run)
  from run direct have api1: "api1 = authenticated_api"
    by (simp add: fresh_plugin_fields)
  have s1: "(''bearerAuth'', \<lparr>scheme_type = ''http'', scheme = Some ''bearer''\<rparr>)
      \<in> set (securitySchemes example_api)"
    and s2: "(''basicAuth'', \<lparr>scheme_type = ''http'', scheme = Some ''basic''\<rparr>)
      \<in> set (securitySchemes example_api)"
    and s3: "(''keyAuth'', \<lparr>scheme_type = ''apiKey'', scheme = None\<rparr>)
      \<in> set (securitySchemes example_api)"
    by (simp_all add: example_api_def)
  have "map_of (security authenticated_api) ''bearerAuth'' = Some (Token ''secret'')"
    using bspec [OF reg s1] unfolding api1
    by (simp add: is_http_def has_scheme_def py_lower_words credential_or_empty_def)
  moreover have "map_of (security authenticated_api) ''basicAuth'' =
      Some (UserPass (PStr []) (PStr []))"
    using bspec [OF reg s2] unfolding api1
    by (simp add: is_http_def has_scheme_def py_lower_words credential_or_empty_def)
  moreover have "map_of (security authenticated_api) ''keyAuth'' = None"
    using bspec [OF reg s3] unfolding api1
    by (simp add: is_http_def has_scheme_def py_lower_words example_api_def)
  ultimately show ?thesis
    using h1 h3 run unfolding api1 by simp
qed


end
